theory Spec2Isabelle
  imports Complex_Main
begin

section \<open>The arbitrage analyzer of \<^verbatim>\<open>phase3_advanced_arbitrage_final.py\<close>\<close>

text \<open>
  The theory embeds the class \<^verbatim>\<open>ArbitrageAnalyzer\<close>: its quote store
  (\<^verbatim>\<open>update_price_data\<close>), its four scans and \<^verbatim>\<open>generate_arbitrage_signal\<close>.

  Numbers. The quotes are Python floats (the annotations of \<^verbatim>\<open>update_price_data\<close> and of
  the two dataclasses say \<^verbatim>\<open>float\<close>). A finite float is modelled as a \<open>real\<close>: rounding,
  overflow and the sign of zero are idealised away. What is not idealised is division by
  zero: a Python float division by zero raises \<^verbatim>\<open>ZeroDivisionError\<close>, and every scan
  catches it in its \<^verbatim>\<open>try/except\<close> and returns the opportunities found so far. The values
  that numpy computes in the statistical scan (\<^verbatim>\<open>np.mean\<close>, \<^verbatim>\<open>np.std\<close> and what is
  derived from them) are \<^verbatim>\<open>np.float64\<close>: there a division by zero returns an infinity or
  a NaN instead of raising (the warning is filtered), so these values get a type of their
  own, \<open>npfloat\<close>. (A caller that passes \<^verbatim>\<open>np.float64\<close> quotes, as \<^verbatim>\<open>main\<close> does,
  gets an infinity or a NaN from a division by a zero price as well, where the model ends
  the scan. No example state below has a zero price, and the theorems in which a scan
  emits an opportunity assume non-zero asks.)

  Time. \<^verbatim>\<open>datetime.now()\<close> is an input of the model: every operation takes the clock
  reading \<open>now\<close> as an argument.
\<close>

subsection \<open>Python values\<close>

type_synonym timestamp = nat

datatype py_error = ZeroDivisionError | KeyError

datatype npfloat = Fin real | PInf | NInf | NaN

fun np_neg :: "npfloat \<Rightarrow> npfloat" where
  "np_neg (Fin a) = Fin (- a)"
| "np_neg PInf = NInf"
| "np_neg NInf = PInf"
| "np_neg NaN = NaN"

fun np_add :: "npfloat \<Rightarrow> npfloat \<Rightarrow> npfloat" where
  "np_add (Fin a) (Fin b) = Fin (a + b)"
| "np_add NaN y = NaN"
| "np_add x NaN = NaN"
| "np_add PInf NInf = NaN"
| "np_add NInf PInf = NaN"
| "np_add PInf y = PInf"
| "np_add NInf y = NInf"
| "np_add x PInf = PInf"
| "np_add x NInf = NInf"

definition np_sub :: "npfloat \<Rightarrow> npfloat \<Rightarrow> npfloat" where
  "np_sub x y = np_add x (np_neg y)"

text \<open>The sign of a value: \<open>1\<close>, \<open>-1\<close>, or \<open>0\<close> for zero (a zero counts as positive
  zero where IEEE 754 needs its sign) and for NaN.\<close>

fun np_sign :: "npfloat \<Rightarrow> int" where
  "np_sign (Fin a) = (if a > 0 then 1 else if a < 0 then - 1 else 0)"
| "np_sign PInf = 1"
| "np_sign NInf = - 1"
| "np_sign NaN = 0"

definition signed_inf :: "int \<Rightarrow> npfloat" where
  "signed_inf s = (if s < 0 then NInf else PInf)"

fun np_mul :: "npfloat \<Rightarrow> npfloat \<Rightarrow> npfloat" where
  "np_mul (Fin a) (Fin b) = Fin (a * b)"
| "np_mul NaN y = NaN"
| "np_mul x NaN = NaN"
| "np_mul x y =
     (if np_sign x = 0 \<or> np_sign y = 0 then NaN else signed_inf (np_sign x * np_sign y))"

fun np_div :: "npfloat \<Rightarrow> npfloat \<Rightarrow> npfloat" where
  "np_div (Fin a) (Fin b) =
     (if b \<noteq> 0 then Fin (a / b)
      else if a > 0 then PInf else if a < 0 then NInf else NaN)"
| "np_div NaN y = NaN"
| "np_div x NaN = NaN"
| "np_div (Fin a) y = Fin 0"
| "np_div x (Fin b) = signed_inf (np_sign x * (if b < 0 then - 1 else 1))"
| "np_div x y = NaN"

fun np_abs :: "npfloat \<Rightarrow> npfloat" where
  "np_abs (Fin a) = Fin \<bar>a\<bar>"
| "np_abs PInf = PInf"
| "np_abs NInf = PInf"
| "np_abs NaN = NaN"

fun np_sqrt :: "npfloat \<Rightarrow> npfloat" where
  "np_sqrt (Fin a) = (if a < 0 then NaN else Fin (sqrt a))"
| "np_sqrt PInf = PInf"
| "np_sqrt NInf = NaN"
| "np_sqrt NaN = NaN"

text \<open>Comparisons: every comparison with a NaN is false.\<close>

fun np_gt :: "npfloat \<Rightarrow> npfloat \<Rightarrow> bool" where
  "np_gt (Fin a) (Fin b) = (a > b)"
| "np_gt NaN y = False"
| "np_gt x NaN = False"
| "np_gt PInf PInf = False"
| "np_gt PInf y = True"
| "np_gt x PInf = False"
| "np_gt NInf y = False"
| "np_gt x NInf = True"

definition np_ge :: "npfloat \<Rightarrow> npfloat \<Rightarrow> bool" where
  "np_ge x y = (np_gt x y \<or> (x = y \<and> x \<noteq> NaN))"

definition np_lt :: "npfloat \<Rightarrow> npfloat \<Rightarrow> bool" where
  "np_lt x y = np_gt y x"

text \<open>\<^verbatim>\<open>np.mean(a)\<close> and \<^verbatim>\<open>np.std(a)\<close> (the population standard deviation, \<^verbatim>\<open>ddof=0\<close>:
  the square root of the mean of the squared absolute deviations).\<close>

definition np_sum :: "npfloat list \<Rightarrow> npfloat" where
  "np_sum xs = foldl np_add (Fin 0) xs"

definition np_mean :: "npfloat list \<Rightarrow> npfloat" where
  "np_mean xs = np_div (np_sum xs) (Fin (real (length xs)))"

definition np_std :: "npfloat list \<Rightarrow> npfloat" where
  "np_std xs =
     (let m = np_mean xs;
          sq = map (\<lambda>x. let d = np_abs (np_sub x m) in np_mul d d) xs
      in np_sqrt (np_mean sq))"

text \<open>\<^verbatim>\<open>min(a, b)\<close> of Python returns \<open>b\<close> when \<open>b < a\<close> and \<open>a\<close> otherwise.\<close>

definition py_min :: "npfloat \<Rightarrow> npfloat \<Rightarrow> npfloat" where
  "py_min a b = (if np_lt b a then b else a)"

text \<open>\<^verbatim>\<open>max(xs, key=f)\<close> of Python keeps the first element and replaces it by a later one
  only when that one's key is strictly greater.\<close>

fun py_max_from :: "('a \<Rightarrow> npfloat) \<Rightarrow> 'a \<Rightarrow> 'a list \<Rightarrow> 'a" where
  "py_max_from key best [] = best"
| "py_max_from key best (x # xs) =
     py_max_from key (if np_gt (key x) (key best) then x else best) xs"

text \<open>A \<^verbatim>\<open>dict\<close> whose iteration order is observed is an association list in insertion
  order: assigning to a key that is present replaces its value in place, assigning to a new
  key appends it.\<close>

fun dict_set :: "('k \<times> 'v) list \<Rightarrow> 'k \<Rightarrow> 'v \<Rightarrow> ('k \<times> 'v) list" where
  "dict_set [] k v = [(k, v)]"
| "dict_set ((k', v') # d) k v =
     (if k' = k then (k, v) # d else (k', v') # dict_set d k v)"

text \<open>\<^verbatim>\<open>xs[-n:]\<close>: the last \<open>n\<close> elements (all of them when there are fewer).\<close>

definition last_n :: "nat \<Rightarrow> 'a list \<Rightarrow> 'a list" where
  "last_n n xs = drop (length xs - n) xs"

text \<open>\<^verbatim>\<open>s.endswith(suf)\<close> and \<^verbatim>\<open>s.replace(old, new)\<close>: every non-overlapping occurrence
  of \<open>old\<close>, from the left; with an empty \<open>old\<close>, \<open>new\<close> is inserted around every
  character.\<close>

definition endswith :: "string \<Rightarrow> string \<Rightarrow> bool" where
  "endswith s suf = (length suf \<le> length s \<and> drop (length s - length suf) s = suf)"

definition startswith :: "string \<Rightarrow> string \<Rightarrow> bool" where
  "startswith s pre = (take (length pre) s = pre)"

function replace_from :: "string \<Rightarrow> string \<Rightarrow> string \<Rightarrow> string" where
  "replace_from old new [] = []"
| "replace_from old new (c # cs) =
     (if old \<noteq> [] \<and> startswith (c # cs) old
      then new @ replace_from old new (drop (length old) (c # cs))
      else c # replace_from old new cs)"
  by pat_completeness auto
termination
  by (relation "measure (\<lambda>(old, new, s). length s)") auto

definition replace :: "string \<Rightarrow> string \<Rightarrow> string \<Rightarrow> string" where
  "replace s old new =
     (if old = [] then new @ concat (map (\<lambda>c. c # new) s) else replace_from old new s)"

text \<open>The scans are loops in a \<^verbatim>\<open>try\<close> block that append to a list; the
  \<^verbatim>\<open>except\<close> clause logs and the function returns the list as it is. A loop body
  yields the opportunities it appended and the exception it raised, if any; the loop stops
  at the first exception. Nested loops nest \<open>try_for\<close>.\<close>

fun try_for :: "('a \<Rightarrow> 'b list \<times> py_error option) \<Rightarrow> 'a list \<Rightarrow> 'b list \<times> py_error option" where
  "try_for body [] = ([], None)"
| "try_for body (x # xs) =
     (case body x of
        (ys, Some e) \<Rightarrow> (ys, Some e)
      | (ys, None) \<Rightarrow> (case try_for body xs of (zs, r) \<Rightarrow> (ys @ zs, r)))"

subsection \<open>The data model\<close>

record ExchangePrice =
  exchange :: string
  symbol :: string
  bid_price :: real
  ask_price :: real
  volume :: real
  timestamp :: timestamp

text \<open>An entry of a price history: the dict with the keys \<^verbatim>\<open>timestamp\<close>, \<^verbatim>\<open>bid\<close>,
  \<^verbatim>\<open>ask\<close>, \<^verbatim>\<open>mid\<close>, \<^verbatim>\<open>spread\<close> and \<^verbatim>\<open>volume\<close>.\<close>

record history_entry =
  h_timestamp :: timestamp
  h_bid :: real
  h_ask :: real
  h_mid :: real
  h_spread :: real
  h_volume :: real

text \<open>\<^verbatim>\<open>profit_percent\<close> and \<^verbatim>\<open>confidence\<close> of a statistical opportunity are numpy
  values, so the two fields are \<open>npfloat\<close>s.\<close>

record ArbitrageOpportunity =
  op_type :: string
  op_symbol :: string
  buy_price :: real
  sell_price :: real
  buy_exchange :: string
  sell_exchange :: string
  spread :: real
  profit_percent :: npfloat
  op_volume :: real
  op_timestamp :: timestamp
  confidence :: npfloat

text \<open>The analyzer's attributes. \<^verbatim>\<open>price_data[exchange]\<close> is iterated by the triangular
  scan, so it is an association list in insertion order; the other dicts are only looked
  up. \<^verbatim>\<open>executed_trades\<close>, \<^verbatim>\<open>correlation_matrix\<close> and \<^verbatim>\<open>cointegration_pairs\<close> are
  initialised empty and never read or written again; they are left out.\<close>

record ArbitrageAnalyzer =
  exchanges :: "string list"
  trading_fees :: "string \<rightharpoonup> real"
  withdrawal_fees :: "string \<rightharpoonup> real"
  min_profit_threshold :: "string \<rightharpoonup> real"
  price_data :: "string \<rightharpoonup> (string \<times> ExchangePrice) list"
  price_history :: "string \<rightharpoonup> (string \<rightharpoonup> history_entry list)"
  arbitrage_opportunities :: "ArbitrageOpportunity list"

definition init_analyzer :: ArbitrageAnalyzer where
  "init_analyzer =
     \<lparr> exchanges = [''OKX'', ''Binance'', ''Bybit'', ''Upbit'', ''Bithumb'', ''Coinone''],
       trading_fees = [''OKX'' \<mapsto> 1 / 1000, ''Binance'' \<mapsto> 1 / 1000, ''Bybit'' \<mapsto> 1 / 1000,
                       ''Upbit'' \<mapsto> 5 / 10000, ''Bithumb'' \<mapsto> 25 / 10000, ''Coinone'' \<mapsto> 2 / 1000],
       withdrawal_fees = [''BTC'' \<mapsto> 5 / 10000, ''ETH'' \<mapsto> 5 / 1000, ''USDT'' \<mapsto> 1],
       min_profit_threshold = [''cross_exchange'' \<mapsto> 5 / 1000, ''triangular'' \<mapsto> 2 / 1000,
                               ''statistical'' \<mapsto> 3 / 1000, ''future_spot'' \<mapsto> 1 / 1000],
       price_data = Map.empty,
       price_history = Map.empty,
       arbitrage_opportunities = [] \<rparr>"

subsection \<open>\<^verbatim>\<open>update_price_data\<close>\<close>

definition new_quote :: "string \<Rightarrow> string \<Rightarrow> real \<Rightarrow> real \<Rightarrow> real \<Rightarrow> timestamp \<Rightarrow> ExchangePrice" where
  "new_quote ex smb bid ask vol now =
     \<lparr> exchange = ex, symbol = smb, bid_price = bid, ask_price = ask, volume = vol,
       timestamp = now \<rparr>"

definition new_entry :: "real \<Rightarrow> real \<Rightarrow> real \<Rightarrow> timestamp \<Rightarrow> history_entry" where
  "new_entry bid ask vol now =
     \<lparr> h_timestamp = now, h_bid = bid, h_ask = ask, h_mid = (bid + ask) / 2,
       h_spread = ask - bid, h_volume = vol \<rparr>"

text \<open>Reading the two stores: the latest quote and the history of a key
  (\<open>None\<close> and \<open>[]\<close> when the key was never written).\<close>

definition latest :: "ArbitrageAnalyzer \<Rightarrow> string \<Rightarrow> string \<Rightarrow> ExchangePrice option" where
  "latest st ex smb = (case price_data st ex of None \<Rightarrow> None | Some prices \<Rightarrow> map_of prices smb)"

definition history :: "ArbitrageAnalyzer \<Rightarrow> string \<Rightarrow> string \<Rightarrow> history_entry list" where
  "history st ex smb =
     (case price_history st ex of
        None \<Rightarrow> []
      | Some h \<Rightarrow> (case h smb of None \<Rightarrow> [] | Some es \<Rightarrow> es))"

text \<open>The body of \<^verbatim>\<open>update_price_data\<close> has no check of its arguments and nothing in it
  raises on floats, so its \<^verbatim>\<open>except\<close> clause is never entered: the function is a total
  state update.\<close>

definition update_price_data ::
  "string \<Rightarrow> string \<Rightarrow> real \<Rightarrow> real \<Rightarrow> real \<Rightarrow> timestamp \<Rightarrow> ArbitrageAnalyzer \<Rightarrow> ArbitrageAnalyzer" where
  "update_price_data ex smb bid ask vol now st =
     (let prices = (case price_data st ex of None \<Rightarrow> [] | Some d \<Rightarrow> d);
          prices' = dict_set prices smb (new_quote ex smb bid ask vol now);
          h = (case price_history st ex of None \<Rightarrow> Map.empty | Some h \<Rightarrow> h);
          es = (case h smb of None \<Rightarrow> [] | Some es \<Rightarrow> es) @ [new_entry bid ask vol now];
          es' = (if length es > 1000 then last_n 1000 es else es)
      in st\<lparr> price_data := (price_data st)(ex \<mapsto> prices'),
             price_history := (price_history st)(ex \<mapsto> h(smb \<mapsto> es')) \<rparr>)"

subsection \<open>\<^verbatim>\<open>find_cross_exchange_arbitrage\<close>\<close>

text \<open>\<^verbatim>\<open>self.trading_fees.get(exchange, 0.001)\<close>, and the two net prices of the loop
  body.\<close>

definition fee_rate :: "ArbitrageAnalyzer \<Rightarrow> string \<Rightarrow> real" where
  "fee_rate st ex = (case trading_fees st ex of None \<Rightarrow> 1 / 1000 | Some f \<Rightarrow> f)"

definition net_buy_price :: "ArbitrageAnalyzer \<Rightarrow> string \<Rightarrow> real \<Rightarrow> real" where
  "net_buy_price st ex buy = buy + buy * fee_rate st ex"

definition net_sell_price :: "ArbitrageAnalyzer \<Rightarrow> string \<Rightarrow> real \<Rightarrow> real" where
  "net_sell_price st ex sell = sell - sell * fee_rate st ex"

text \<open>The dict \<^verbatim>\<open>exchange_prices\<close>: the quote of the symbol on every exchange of
  \<^verbatim>\<open>self.exchanges\<close> that has one, in that order.\<close>

definition exchange_prices :: "ArbitrageAnalyzer \<Rightarrow> string \<Rightarrow> (string \<times> ExchangePrice) list" where
  "exchange_prices st smb =
     foldl (\<lambda>d ex. case latest st ex smb of None \<Rightarrow> d | Some q \<Rightarrow> dict_set d ex q)
       [] (exchanges st)"

definition cross_opportunity ::
  "timestamp \<Rightarrow> string \<Rightarrow> string \<Rightarrow> ExchangePrice \<Rightarrow> string \<Rightarrow> ExchangePrice \<Rightarrow> real \<Rightarrow> real
     \<Rightarrow> ArbitrageOpportunity" where
  "cross_opportunity now smb be bi se si sprd profit =
     \<lparr> op_type = ''cross_exchange'', op_symbol = smb,
       buy_price = ask_price bi, sell_price = bid_price si,
       buy_exchange = be, sell_exchange = se,
       spread = sprd, profit_percent = Fin profit,
       op_volume = min (volume bi) (volume si), op_timestamp = now,
       confidence = py_min (Fin (9 / 10)) (Fin (profit / 2)) \<rparr>"

text \<open>The body of the inner loop, for one ordered pair of entries of
  \<^verbatim>\<open>exchange_prices\<close>.\<close>

definition cross_pair ::
  "timestamp \<Rightarrow> ArbitrageAnalyzer \<Rightarrow> string \<Rightarrow> string \<times> ExchangePrice \<Rightarrow> string \<times> ExchangePrice
     \<Rightarrow> ArbitrageOpportunity list \<times> py_error option" where
  "cross_pair now st smb b s =
     (case b of (be, bi) \<Rightarrow> case s of (se, si) \<Rightarrow>
        if be = se then ([], None)
        else
          let nb = net_buy_price st be (ask_price bi);
              ns = net_sell_price st se (bid_price si)
          in if ns > nb then
               (if nb = 0 then ([], Some ZeroDivisionError)
                else
                  let profit = (ns - nb) / nb * 100
                  in case min_profit_threshold st ''cross_exchange'' of
                       None \<Rightarrow> ([], Some KeyError)
                     | Some thr \<Rightarrow>
                         if profit \<ge> thr * 100
                         then ([cross_opportunity now smb be bi se si (ns - nb) profit], None)
                         else ([], None))
             else ([], None))"

definition find_cross_exchange_arbitrage ::
  "timestamp \<Rightarrow> ArbitrageAnalyzer \<Rightarrow> string \<Rightarrow> ArbitrageOpportunity list" where
  "find_cross_exchange_arbitrage now st smb =
     (let eps = exchange_prices st smb
      in if length eps < 2 then []
         else fst (try_for (\<lambda>b. try_for (\<lambda>s. cross_pair now st smb b s) eps) eps))"

subsection \<open>\<^verbatim>\<open>find_triangular_arbitrage\<close>\<close>

definition triangular_opportunity ::
  "timestamp \<Rightarrow> string \<Rightarrow> string \<Rightarrow> string \<Rightarrow> ExchangePrice \<Rightarrow> ExchangePrice \<Rightarrow> ExchangePrice
     \<Rightarrow> real \<Rightarrow> real \<Rightarrow> real \<Rightarrow> ArbitrageOpportunity" where
  "triangular_opportunity now currency1 currency2 base price1 price2 cross_price
       theoretical actual profit =
     \<lparr> op_type = ''triangular'', op_symbol = currency1 @ ''-'' @ currency2 @ ''-'' @ base,
       buy_price = actual, sell_price = theoretical,
       buy_exchange = ''OKX'', sell_exchange = ''OKX'',
       spread = theoretical - actual, profit_percent = Fin profit,
       op_volume = min (min (volume price1) (volume price2)) (volume cross_price),
       op_timestamp = now, confidence = Fin (8 / 10) \<rparr>"

text \<open>The body of the inner loop for \<^verbatim>\<open>symbol1\<close> and \<^verbatim>\<open>symbol2\<close>. Only the direct
  orientation \<^verbatim>\<open>currency1-currency2\<close> of the cross symbol is priced; when only
  \<^verbatim>\<open>currency2-currency1\<close> is quoted the source sets \<^verbatim>\<open>direct = False\<close> and the body does
  nothing. A subscript \<^verbatim>\<open>prices[k]\<close> of a missing key raises \<^verbatim>\<open>KeyError\<close>.\<close>

definition triangular_pair ::
  "timestamp \<Rightarrow> ArbitrageAnalyzer \<Rightarrow> string \<Rightarrow> (string \<times> ExchangePrice) list \<Rightarrow> string \<Rightarrow> string
     \<Rightarrow> ArbitrageOpportunity list \<times> py_error option" where
  "triangular_pair now st base prices symbol1 symbol2 =
     (if \<not> endswith symbol2 (''-'' @ base) then ([], None)
      else
        let currency1 = replace symbol1 (''-'' @ base) [];
            currency2 = replace symbol2 (''-'' @ base) []
        in if currency1 = currency2 then ([], None)
           else
             let cross_symbol1 = currency1 @ ''-'' @ currency2;
                 cross_symbol2 = currency2 @ ''-'' @ currency1
             in if map_of prices cross_symbol1 = None \<and> map_of prices cross_symbol2 = None
                then ([], None)
                else
                  let direct = (map_of prices cross_symbol1 \<noteq> None);
                      cross_symbol = (if direct then cross_symbol1 else cross_symbol2)
                  in case map_of prices symbol1 of None \<Rightarrow> ([], Some KeyError) | Some price1 \<Rightarrow>
                     case map_of prices symbol2 of None \<Rightarrow> ([], Some KeyError) | Some price2 \<Rightarrow>
                     case map_of prices cross_symbol of None \<Rightarrow> ([], Some KeyError) | Some cross_price \<Rightarrow>
                       if direct then
                         (if ask_price price2 = 0 then ([], Some ZeroDivisionError)
                          else
                            let theoretical = bid_price price1 / ask_price price2;
                                actual = ask_price cross_price
                            in if theoretical > actual * (1001 / 1000) then
                                 (if actual = 0 then ([], Some ZeroDivisionError)
                                  else
                                    let profit = (theoretical - actual) / actual * 100
                                    in case min_profit_threshold st ''triangular'' of
                                         None \<Rightarrow> ([], Some KeyError)
                                       | Some thr \<Rightarrow>
                                           if profit \<ge> thr * 100
                                           then ([triangular_opportunity now currency1 currency2 base
                                                    price1 price2 cross_price theoretical actual profit],
                                                 None)
                                           else ([], None))
                               else ([], None))
                       else ([], None))"

definition find_triangular_arbitrage ::
  "timestamp \<Rightarrow> ArbitrageAnalyzer \<Rightarrow> string \<Rightarrow> ArbitrageOpportunity list" where
  "find_triangular_arbitrage now st base =
     (case price_data st ''OKX'' of
        None \<Rightarrow> []
      | Some prices \<Rightarrow>
          let available_symbols = map fst prices
          in fst (try_for
                   (\<lambda>symbol1.
                      if \<not> endswith symbol1 (''-'' @ base) then ([], None)
                      else try_for (\<lambda>symbol2. triangular_pair now st base prices symbol1 symbol2)
                             available_symbols)
                   available_symbols))"

subsection \<open>\<^verbatim>\<open>find_statistical_arbitrage\<close>\<close>

text \<open>\<^verbatim>\<open>ratio = np.array(prices1) / np.array(prices2)\<close> over the mid prices of the last 50
  entries of the two histories: an elementwise numpy division.\<close>

definition ratio_series :: "history_entry list \<Rightarrow> history_entry list \<Rightarrow> npfloat list" where
  "ratio_series hist1 hist2 =
     map (\<lambda>(a, b). np_div (Fin a) (Fin b))
       (zip (map h_mid (last_n 50 hist1)) (map h_mid (last_n 50 hist2)))"

definition statistical_opportunity ::
  "timestamp \<Rightarrow> string \<Rightarrow> string \<Rightarrow> string \<Rightarrow> ExchangePrice \<Rightarrow> ExchangePrice \<Rightarrow> npfloat \<Rightarrow> npfloat
     \<Rightarrow> ArbitrageOpportunity" where
  "statistical_opportunity now ex symbol1 symbol2 price1 price2 z_score profit =
     (let buy_symbol = (if np_gt z_score (Fin 0) then symbol2 else symbol1);
          sell_symbol = (if np_gt z_score (Fin 0) then symbol1 else symbol2);
          buy = (if np_gt z_score (Fin 0) then ask_price price2 else ask_price price1);
          sell = (if np_gt z_score (Fin 0) then bid_price price1 else bid_price price2)
      in \<lparr> op_type = ''statistical'', op_symbol = buy_symbol @ ''_'' @ sell_symbol,
           buy_price = buy, sell_price = sell,
           buy_exchange = ex, sell_exchange = ex,
           spread = \<bar>sell - buy\<bar>, profit_percent = profit,
           op_volume = min (volume price1) (volume price2), op_timestamp = now,
           confidence = py_min (Fin (9 / 10)) (np_div (np_abs z_score) (Fin 3)) \<rparr>)"

text \<open>The pricing of one exchange once both histories are long enough. \<^verbatim>\<open>current_ratio\<close>
  is a division of two Python floats and raises on a zero ask; \<^verbatim>\<open>z_score\<close> and
  \<^verbatim>\<open>profit_percent\<close> are numpy divisions and do not.\<close>

definition statistical_signal ::
  "timestamp \<Rightarrow> ArbitrageAnalyzer \<Rightarrow> string \<Rightarrow> string \<Rightarrow> string \<Rightarrow> ExchangePrice \<Rightarrow> ExchangePrice
     \<Rightarrow> npfloat list \<Rightarrow> ArbitrageOpportunity list \<times> py_error option" where
  "statistical_signal now st ex symbol1 symbol2 price1 price2 ratio =
     (let mean_ratio = np_mean ratio;
          std_ratio = np_std ratio
      in if ask_price price2 = 0 then ([], Some ZeroDivisionError)
         else
           let current_ratio = bid_price price1 / ask_price price2;
               z_score = np_div (np_sub (Fin current_ratio) mean_ratio) std_ratio
           in if np_gt (np_abs z_score) (Fin 2) then
                (let profit = np_mul (np_div (np_mul (np_abs z_score) std_ratio) (Fin current_ratio))
                                (Fin 100)
                 in case min_profit_threshold st ''statistical'' of
                      None \<Rightarrow> ([], Some KeyError)
                    | Some thr \<Rightarrow>
                        if np_ge profit (Fin (thr * 100))
                        then ([statistical_opportunity now ex symbol1 symbol2 price1 price2
                                 z_score profit], None)
                        else ([], None))
              else ([], None))"

text \<open>The body of the innermost loop, for one exchange.\<close>

definition statistical_exchange ::
  "timestamp \<Rightarrow> ArbitrageAnalyzer \<Rightarrow> string \<Rightarrow> string \<Rightarrow> string
     \<Rightarrow> ArbitrageOpportunity list \<times> py_error option" where
  "statistical_exchange now st symbol1 symbol2 ex =
     (case latest st ex symbol1 of None \<Rightarrow> ([], None) | Some price1 \<Rightarrow>
      case latest st ex symbol2 of None \<Rightarrow> ([], None) | Some price2 \<Rightarrow>
      case price_history st ex of None \<Rightarrow> ([], None) | Some h \<Rightarrow>
      case h symbol1 of None \<Rightarrow> ([], None) | Some hist1 \<Rightarrow>
      case h symbol2 of None \<Rightarrow> ([], None) | Some hist2 \<Rightarrow>
        if length hist1 > 50 \<and> length hist2 > 50
        then statistical_signal now st ex symbol1 symbol2 price1 price2 (ratio_series hist1 hist2)
        else ([], None))"

definition statistical_symbols :: "string list" where
  "statistical_symbols = [''BTC-USDT'', ''ETH-USDT'']"

definition find_statistical_arbitrage :: "timestamp \<Rightarrow> ArbitrageAnalyzer \<Rightarrow> ArbitrageOpportunity list" where
  "find_statistical_arbitrage now st =
     (let symbols = statistical_symbols
      in if length symbols < 2 then []
         else fst (try_for
                    (\<lambda>(i, symbol1).
                       try_for
                         (\<lambda>symbol2. try_for (statistical_exchange now st symbol1 symbol2) (exchanges st))
                         (drop (i + 1) symbols))
                    (enumerate 0 symbols)))"

subsection \<open>\<^verbatim>\<open>find_future_spot_arbitrage\<close>\<close>

definition future_spot_opportunity ::
  "timestamp \<Rightarrow> string \<Rightarrow> string \<Rightarrow> ExchangePrice \<Rightarrow> ExchangePrice \<Rightarrow> real \<Rightarrow> real
     \<Rightarrow> ArbitrageOpportunity" where
  "future_spot_opportunity now spot_symbol future_symbol spot_price future_price sprd profit =
     \<lparr> op_type = ''future_spot'', op_symbol = spot_symbol @ ''_'' @ future_symbol,
       buy_price = (if sprd > 0 then ask_price spot_price else ask_price future_price),
       sell_price = (if sprd > 0 then bid_price future_price else bid_price spot_price),
       buy_exchange = ''OKX'', sell_exchange = ''OKX'',
       spread = \<bar>sprd\<bar>, profit_percent = Fin profit,
       op_volume = min (volume spot_price) (volume future_price), op_timestamp = now,
       confidence = Fin (85 / 100) \<rparr>"

definition future_spot_body ::
  "timestamp \<Rightarrow> ArbitrageAnalyzer \<Rightarrow> string \<Rightarrow> ArbitrageOpportunity list \<times> py_error option" where
  "future_spot_body now st smb =
     (let spot_symbol = smb;
          future_symbol = replace smb ''-USDT'' ''-USDT-SWAP''
      in case latest st ''OKX'' spot_symbol of None \<Rightarrow> ([], None) | Some spot_price \<Rightarrow>
         case latest st ''OKX'' future_symbol of None \<Rightarrow> ([], None) | Some future_price \<Rightarrow>
           let sprd = bid_price future_price - ask_price spot_price
           in case min_profit_threshold st ''future_spot'' of
                None \<Rightarrow> ([], Some KeyError)
              | Some thr \<Rightarrow>
                  if \<bar>sprd\<bar> > ask_price spot_price * thr then
                    (if ask_price spot_price = 0 then ([], Some ZeroDivisionError)
                     else ([future_spot_opportunity now spot_symbol future_symbol spot_price
                              future_price sprd (\<bar>sprd\<bar> / ask_price spot_price * 100)], None))
                  else ([], None))"

definition find_future_spot_arbitrage ::
  "timestamp \<Rightarrow> ArbitrageAnalyzer \<Rightarrow> string \<Rightarrow> ArbitrageOpportunity list" where
  "find_future_spot_arbitrage now st smb = fst (future_spot_body now st smb)"

subsection \<open>\<^verbatim>\<open>generate_arbitrage_signal\<close>\<close>

text \<open>The dict that \<^verbatim>\<open>generate_arbitrage_signal\<close> returns.\<close>

record arbitrage_signal =
  grade :: string
  sig_type :: string
  sig_symbol :: string
  sig_profit_percent :: npfloat
  sig_spread :: real
  sig_buy_exchange :: string
  sig_sell_exchange :: string
  sig_buy_price :: real
  sig_sell_price :: real
  sig_volume :: real
  sig_confidence :: npfloat
  total_opportunities :: nat
  opportunities_by_type :: "(string \<times> nat) list"

definition scan_symbols :: "string list" where
  "scan_symbols = [''BTC-USDT'', ''ETH-USDT'', ''BNB-USDT'', ''ADA-USDT'', ''SOL-USDT'', ''XRP-USDT'']"

text \<open>The list \<^verbatim>\<open>all_opportunities\<close>: per symbol the cross-exchange and the future-spot
  scan, then the triangular scan (base \<^verbatim>\<open>USDT\<close>) and the statistical scan.\<close>

definition all_opportunities :: "timestamp \<Rightarrow> ArbitrageAnalyzer \<Rightarrow> ArbitrageOpportunity list" where
  "all_opportunities now st =
     concat (map (\<lambda>smb. find_cross_exchange_arbitrage now st smb @ find_future_spot_arbitrage now st smb)
               scan_symbols)
     @ find_triangular_arbitrage now st ''USDT''
     @ find_statistical_arbitrage now st"

definition count_type :: "ArbitrageOpportunity list \<Rightarrow> string \<Rightarrow> nat" where
  "count_type ops t = length (filter (\<lambda>op. op_type op = t) ops)"

definition grade_of :: "npfloat \<Rightarrow> string" where
  "grade_of profit =
     (if np_ge profit (Fin 10) then ''ARBITRAGE_GODLIKE''
      else if np_ge profit (Fin 5) then ''ARBITRAGE_LEGENDARY''
      else if np_ge profit (Fin 1) then ''ARBITRAGE_MEGA''
      else if np_ge profit (Fin (5 / 10)) then ''ARBITRAGE_ULTRA''
      else ''ARBITRAGE_NORMAL'')"

definition make_signal :: "ArbitrageOpportunity \<Rightarrow> ArbitrageOpportunity list \<Rightarrow> arbitrage_signal" where
  "make_signal best ops =
     \<lparr> grade = grade_of (profit_percent best), sig_type = op_type best,
       sig_symbol = op_symbol best, sig_profit_percent = profit_percent best,
       sig_spread = spread best,
       sig_buy_exchange = buy_exchange best, sig_sell_exchange = sell_exchange best,
       sig_buy_price = buy_price best, sig_sell_price = sell_price best,
       sig_volume = op_volume best, sig_confidence = confidence best,
       total_opportunities = length ops,
       opportunities_by_type =
         [(''cross_exchange'', count_type ops ''cross_exchange''),
          (''triangular'', count_type ops ''triangular''),
          (''statistical'', count_type ops ''statistical''),
          (''future_spot'', count_type ops ''future_spot'')] \<rparr>"

text \<open>The result and the analyzer afterwards: the best opportunity is appended to
  \<^verbatim>\<open>self.arbitrage_opportunities\<close>.\<close>

definition generate_arbitrage_signal ::
  "timestamp \<Rightarrow> ArbitrageAnalyzer \<Rightarrow> arbitrage_signal option \<times> ArbitrageAnalyzer" where
  "generate_arbitrage_signal now st =
     (case all_opportunities now st of
        [] \<Rightarrow> (None, st)
      | x # xs \<Rightarrow>
          let best = py_max_from profit_percent x xs
          in (Some (make_signal best (x # xs)),
              st\<lparr> arbitrage_opportunities := arbitrage_opportunities st @ [best] \<rparr>))"

subsection \<open>Runs of the analyzer\<close>

text \<open>The main loop calls \<^verbatim>\<open>update_price_data\<close> for every quote of the feed and then
  \<^verbatim>\<open>generate_arbitrage_signal\<close>. A run is a list of such calls, applied in order;
  \<open>entries_for\<close> lists the history entries that the updates of one key write.\<close>

datatype action =
    Update string string real real real timestamp
  | Scan timestamp

fun step :: "action \<Rightarrow> ArbitrageAnalyzer \<Rightarrow> ArbitrageAnalyzer" where
  "step (Update ex smb bid ask vol now) st = update_price_data ex smb bid ask vol now st"
| "step (Scan now) st = snd (generate_arbitrage_signal now st)"

definition run :: "action list \<Rightarrow> ArbitrageAnalyzer \<Rightarrow> ArbitrageAnalyzer" where
  "run acts st = fold step acts st"

fun entry_for :: "string \<Rightarrow> string \<Rightarrow> action \<Rightarrow> history_entry list" where
  "entry_for ex smb (Update ex' smb' bid ask vol now) =
     (if ex' = ex \<and> smb' = smb then [new_entry bid ask vol now] else [])"
| "entry_for ex smb (Scan now) = []"

definition entries_for :: "string \<Rightarrow> string \<Rightarrow> action list \<Rightarrow> history_entry list" where
  "entries_for ex smb acts = concat (map (entry_for ex smb) acts)"

subsection \<open>The first maximum of a list\<close>

text \<open>\<open>r\<close> is the first element of \<open>xs\<close> whose key is maximal: no key of \<open>xs\<close> is
  greater, and every earlier key is strictly smaller.\<close>

definition first_max :: "('a \<Rightarrow> npfloat) \<Rightarrow> 'a list \<Rightarrow> 'a \<Rightarrow> bool" where
  "first_max key xs r =
     (\<exists>i<length xs. r = xs ! i \<and>
        (\<forall>j<length xs. np_ge (key r) (key (xs ! j))) \<and>
        (\<forall>j<i. np_gt (key r) (key (xs ! j))))"

subsection \<open>Example states\<close>

text \<open>1001 updates of one key, with the clock readings \<open>0, \<dots>, 1000\<close>.\<close>

definition demo_updates :: "action list" where
  "demo_updates = map (\<lambda>i. Update ''OKX'' ''BTC-USDT'' 100 101 5 i) [0..<1001]"

text \<open>Two exchanges quote \<^verbatim>\<open>BTC-USDT\<close>, with the fees and thresholds of \<^verbatim>\<open>__init__\<close>:
  OKX at 100/101 and Binance at 110/111.\<close>

definition demo_cross :: ArbitrageAnalyzer where
  "demo_cross =
     update_price_data ''Binance'' ''BTC-USDT'' 110 111 3 2
       (update_price_data ''OKX'' ''BTC-USDT'' 100 101 5 1 init_analyzer)"

text \<open>The same quotes with an empty fee table.\<close>

definition demo_nofee :: ArbitrageAnalyzer where
  "demo_nofee = demo_cross\<lparr>trading_fees := Map.empty\<rparr>"

text \<open>The scenario of the specification: OKX at 100/100.1 and Binance at 100.5/100.6, every
  fee zero; with the threshold of \<^verbatim>\<open>__init__\<close> (0.5 percent), and with a threshold of
  0.1 percent.\<close>

definition demo_zero_fee :: ArbitrageAnalyzer where
  "demo_zero_fee =
     update_price_data ''Binance'' ''BTC-USDT'' (1005 / 10) (1006 / 10) 3 2
       (update_price_data ''OKX'' ''BTC-USDT'' 100 (1001 / 10) 5 1
          (init_analyzer\<lparr>trading_fees := (\<lambda>ex. Some 0)\<rparr>))"

definition demo_zero_fee_low :: ArbitrageAnalyzer where
  "demo_zero_fee_low = demo_zero_fee\<lparr>min_profit_threshold := [''cross_exchange'' \<mapsto> 1 / 1000]\<rparr>"

text \<open>A third exchange, Bybit, quotes \<^verbatim>\<open>BTC-USDT\<close> at 110/111 like Binance: buying on OKX
  and selling on either gives the same profit.\<close>

definition demo_tie :: ArbitrageAnalyzer where
  "demo_tie = update_price_data ''Bybit'' ''BTC-USDT'' 110 111 4 3 demo_cross"

definition demo_op_binance :: ArbitrageOpportunity where
  "demo_op_binance =
     cross_opportunity 9 ''BTC-USDT'' ''OKX'' (new_quote ''OKX'' ''BTC-USDT'' 100 101 5 1)
       ''Binance'' (new_quote ''Binance'' ''BTC-USDT'' 110 111 3 2) (8789 / 1000) (878900 / 101101)"

definition demo_op_bybit :: ArbitrageOpportunity where
  "demo_op_bybit =
     cross_opportunity 9 ''BTC-USDT'' ''OKX'' (new_quote ''OKX'' ''BTC-USDT'' 100 101 5 1)
       ''Bybit'' (new_quote ''Bybit'' ''BTC-USDT'' 110 111 4 3) (8789 / 1000) (878900 / 101101)"





section \<open>Properties\<close>

subsection \<open>The quote store\<close>

lemma map_of_dict_set: "map_of (dict_set d k v) = (map_of d)(k \<mapsto> v)"
  by (induction d) auto

lemma keys_dict_set:
  "map fst (dict_set d k v) = (if k \<in> fst ` set d then map fst d else map fst d @ [k])"
  by (induction d) force+

lemma last_n_short: "length xs \<le> n \<Longrightarrow> last_n n xs = xs"
  by (simp add: last_n_def)

lemma length_last_n: "length (last_n n xs) = min n (length xs)"
  by (simp add: last_n_def)

lemma last_n_append_last_n: "last_n n (last_n n xs @ ys) = last_n n (xs @ ys)"
proof (cases "length xs \<le> n")
  case True
  then show ?thesis by (simp add: last_n_def)
next
  case False
  then have "length xs + length ys - n = (length xs - n) + length ys" by simp
  with False show ?thesis by (simp add: last_n_def add.commute)
qed

lemma latest_update:
  "latest (update_price_data ex smb bid ask vol now st) ex' smb' =
     (if ex' = ex \<and> smb' = smb then Some (new_quote ex smb bid ask vol now) else latest st ex' smb')"
  by (auto simp: latest_def update_price_data_def Let_def map_of_dict_set split: option.splits)

lemma history_update:
  "history (update_price_data ex smb bid ask vol now st) ex' smb' =
     (if ex' = ex \<and> smb' = smb then last_n 1000 (history st ex smb @ [new_entry bid ask vol now])
      else history st ex' smb')"
  by (auto simp: history_def update_price_data_def Let_def last_n_short split: option.splits)

lemma latest_init: "latest init_analyzer ex smb = None"
  by (simp add: latest_def init_analyzer_def)

lemma history_init: "history init_analyzer ex smb = []"
  by (simp add: history_def init_analyzer_def)

text \<open>
  Claim C1, as the code has it. \<^verbatim>\<open>update_price_data\<close> checks nothing: for all arguments,
  also with \<open>ask < bid\<close>, \<open>bid \<le> 0\<close> or \<open>volume < 0\<close>, the call does not fail, the quote
  becomes the latest quote of its key, and its entry is appended to the history of the
  key, of which the last 1000 entries are kept.
\<close>

theorem update_price_data_stores_every_quote:
  "latest (update_price_data ex smb bid ask vol now st) ex smb
     = Some (new_quote ex smb bid ask vol now) \<and>
   history (update_price_data ex smb bid ask vol now st) ex smb
     = last_n 1000 (history st ex smb @ [new_entry bid ask vol now])"
  by (simp add: latest_update history_update)

text \<open>
  Claim C1 as stated fails: a quote with \<open>ask = -1 < bid = 0\<close>, \<open>bid \<le> 0\<close> and
  \<open>volume = -1 < 0\<close> is stored in the fresh analyzer, as the latest quote and in the
  history.
\<close>

theorem update_price_data_malformed_counterexample:
  "(- 1 :: real) < 0 \<and>
   latest init_analyzer ''OKX'' ''BTC-USDT'' = None \<and>
   history init_analyzer ''OKX'' ''BTC-USDT'' = [] \<and>
   latest (update_price_data ''OKX'' ''BTC-USDT'' 0 (- 1) (- 1) 7 init_analyzer) ''OKX'' ''BTC-USDT''
     = Some (new_quote ''OKX'' ''BTC-USDT'' 0 (- 1) (- 1) 7) \<and>
   history (update_price_data ''OKX'' ''BTC-USDT'' 0 (- 1) (- 1) 7 init_analyzer) ''OKX'' ''BTC-USDT''
     = [new_entry 0 (- 1) (- 1) 7]"
  by (simp add: latest_update history_update latest_init history_init last_n_def)

subsection \<open>The bounded history\<close>

lemma history_scan: "history (snd (generate_arbitrage_signal now st)) ex smb = history st ex smb"
  by (simp add: generate_arbitrage_signal_def history_def Let_def split: list.splits)

lemma history_step_bounded:
  "length (history st ex smb) \<le> 1000 \<Longrightarrow>
   history (step a st) ex smb = last_n 1000 (history st ex smb @ entry_for ex smb a)"
  by (cases a) (auto simp: history_update history_scan last_n_short)

lemma history_run:
  "length (history st ex smb) \<le> 1000 \<Longrightarrow>
   history (run acts st) ex smb = last_n 1000 (history st ex smb @ entries_for ex smb acts)"
proof (induction acts arbitrary: st)
  case Nil
  then show ?case by (simp add: run_def entries_for_def last_n_short)
next
  case (Cons a acts)
  let ?st = "step a st"
  have h: "history ?st ex smb = last_n 1000 (history st ex smb @ entry_for ex smb a)"
    using Cons.prems by (rule history_step_bounded)
  then have "length (history ?st ex smb) \<le> 1000" by (simp add: length_last_n)
  then have "history (run acts ?st) ex smb = last_n 1000 (history ?st ex smb @ entries_for ex smb acts)"
    by (rule Cons.IH)
  also have "\<dots> = last_n 1000 ((history st ex smb @ entry_for ex smb a) @ entries_for ex smb acts)"
    unfolding h by (rule last_n_append_last_n)
  finally show ?case by (simp add: run_def entries_for_def)
qed

text \<open>
  Claim C9. After any run from the fresh analyzer (updates of any keys, and scans), the
  history of every key has at most 1000 entries and is the last 1000 of the entries written
  for that key, in the order of the updates. After exactly 1001 updates of a key it is
  the list of these entries without the first: the newest entry is present, and the oldest
  one is absent (unless an equal entry was written again later).
\<close>

theorem history_fifo_bounded:
  "length (history (run acts init_analyzer) ex smb) \<le> 1000 \<and>
   history (run acts init_analyzer) ex smb = last_n 1000 (entries_for ex smb acts) \<and>
   (length (entries_for ex smb acts) = 1001 \<longrightarrow>
      history (run acts init_analyzer) ex smb = tl (entries_for ex smb acts) \<and>
      last (entries_for ex smb acts) \<in> set (history (run acts init_analyzer) ex smb) \<and>
      (distinct (entries_for ex smb acts) \<longrightarrow>
         hd (entries_for ex smb acts) \<notin> set (history (run acts init_analyzer) ex smb)))"
proof -
  let ?es = "entries_for ex smb acts"
  have eq: "history (run acts init_analyzer) ex smb = last_n 1000 ?es"
    using history_run [of init_analyzer ex smb acts] by (simp add: history_init)
  have len: "length (history (run acts init_analyzer) ex smb) \<le> 1000"
    by (simp add: eq length_last_n)
  have fifo: "last_n 1000 ?es = tl ?es \<and> last ?es \<in> set (tl ?es) \<and>
      (distinct ?es \<longrightarrow> hd ?es \<notin> set (tl ?es))" if l: "length ?es = 1001"
  proof -
    from l obtain e rest where es: "?es = e # rest" by (cases ?es) auto
    with l have "length rest = 1000" by simp
    then have "rest \<noteq> []" by auto
    then show ?thesis using l es by (auto simp: last_n_def)
  qed
  show ?thesis using eq len fifo by simp
qed

lemma demo_entries:
  "entries_for ''OKX'' ''BTC-USDT'' demo_updates = map (\<lambda>i. new_entry 100 101 5 i) [0..<1001]"
  unfolding entries_for_def demo_updates_def map_map comp_def
  by (simp add: concat_map_singleton)

theorem history_fifo_bounded_witness:
  "length (entries_for ''OKX'' ''BTC-USDT'' demo_updates) = 1001 \<and>
   distinct (entries_for ''OKX'' ''BTC-USDT'' demo_updates) \<and>
   length (history (run demo_updates init_analyzer) ''OKX'' ''BTC-USDT'') \<le> 1000 \<and>
   history (run demo_updates init_analyzer) ''OKX'' ''BTC-USDT'' =
     map (\<lambda>i. new_entry 100 101 5 i) [1..<1001] \<and>
   new_entry 100 101 5 1000 \<in> set (history (run demo_updates init_analyzer) ''OKX'' ''BTC-USDT'') \<and>
   new_entry 100 101 5 0 \<notin> set (history (run demo_updates init_analyzer) ''OKX'' ''BTC-USDT'')"
proof -
  have l: "length (entries_for ''OKX'' ''BTC-USDT'' demo_updates) = 1001"
    by (simp add: demo_entries)
  have d: "distinct (entries_for ''OKX'' ''BTC-USDT'' demo_updates)"
    by (simp add: demo_entries distinct_map inj_on_def new_entry_def)
  have t: "tl (entries_for ''OKX'' ''BTC-USDT'' demo_updates) = map (\<lambda>i. new_entry 100 101 5 i) [1..<1001]"
    by (simp add: demo_entries map_tl [symmetric] tl_upt del: map_tl)
  have la: "last (entries_for ''OKX'' ''BTC-USDT'' demo_updates) = new_entry 100 101 5 1000"
    by (simp add: demo_entries last_map)
  have he: "hd (entries_for ''OKX'' ''BTC-USDT'' demo_updates) = new_entry 100 101 5 0"
    by (simp add: demo_entries hd_map hd_upt)
  note T = history_fifo_bounded [of demo_updates "''OKX''" "''BTC-USDT''"]
  from T have b: "length (history (run demo_updates init_analyzer) ''OKX'' ''BTC-USDT'') \<le> 1000"
    by blast
  from T l have h: "history (run demo_updates init_analyzer) ''OKX'' ''BTC-USDT'' =
      tl (entries_for ''OKX'' ''BTC-USDT'' demo_updates)"
    by blast
  from T l have "last (entries_for ''OKX'' ''BTC-USDT'' demo_updates)
      \<in> set (history (run demo_updates init_analyzer) ''OKX'' ''BTC-USDT'')"
    by blast
  then have n: "new_entry 100 101 5 1000
      \<in> set (history (run demo_updates init_analyzer) ''OKX'' ''BTC-USDT'')"
    using la by simp
  from T l d have "hd (entries_for ''OKX'' ''BTC-USDT'' demo_updates)
      \<notin> set (history (run demo_updates init_analyzer) ''OKX'' ''BTC-USDT'')"
    by blast
  then have o: "new_entry 100 101 5 0
      \<notin> set (history (run demo_updates init_analyzer) ''OKX'' ''BTC-USDT'')"
    using he by simp
  from h t have h': "history (run demo_updates init_analyzer) ''OKX'' ''BTC-USDT'' =
      map (\<lambda>i. new_entry 100 101 5 i) [1..<1001]"
    by (simp only:)
  from l d b h' n o show ?thesis by blast
qed

subsection \<open>Loops that stop at the first exception\<close>

lemma try_for_mem:
  "y \<in> set (fst (try_for body xs)) \<Longrightarrow> \<exists>x\<in>set xs. y \<in> set (fst (body x))"
proof (induction xs)
  case Nil
  then show ?case by simp
next
  case (Cons x xs)
  obtain ys r where b: "body x = (ys, r)" by (cases "body x")
  obtain zs r' where t: "try_for body xs = (zs, r')" by (cases "try_for body xs")
  show ?case
  proof (cases r)
    case None
    with Cons.prems b t have "y \<in> set ys \<or> y \<in> set zs" by simp
    then show ?thesis using Cons.IH b t by auto
  next
    case (Some e)
    with Cons.prems b show ?thesis by simp
  qed
qed


subsection \<open>The cross-exchange scan\<close>

lemma exchanges_update [simp]:
  "exchanges (update_price_data ex smb bid ask vol now st) = exchanges st"
  "trading_fees (update_price_data ex smb bid ask vol now st) = trading_fees st"
  "min_profit_threshold (update_price_data ex smb bid ask vol now st) = min_profit_threshold st"
  "arbitrage_opportunities (update_price_data ex smb bid ask vol now st) = arbitrage_opportunities st"
  by (simp_all add: update_price_data_def Let_def)

lemma latest_config [simp]:
  "latest (st\<lparr>trading_fees := f\<rparr>) = latest st"
  "latest (st\<lparr>min_profit_threshold := m\<rparr>) = latest st"
  "latest (st\<lparr>exchanges := xs\<rparr>) = latest st"
  by (simp_all add: latest_def fun_eq_iff)

lemma dict_set_subset: "set (dict_set d k v) \<subseteq> insert (k, v) (set d)"
  by (induction d) (auto split: if_splits)

lemma distinct_keys_dict_set:
  "distinct (map fst d) \<Longrightarrow> distinct (map fst (dict_set d k v))"
  by (simp add: keys_dict_set)

lemma set_keys_dict_set: "fst ` set (dict_set d k v) = insert k (fst ` set d)"
  using arg_cong [OF keys_dict_set [of d k v], of set] by (auto split: if_splits)

lemma exchange_prices_fold:
  assumes "distinct (map fst d)" and "\<forall>(e, q)\<in>set d. latest st e smb = Some q"
  shows "distinct (map fst (foldl (\<lambda>d ex. case latest st ex smb of None \<Rightarrow> d | Some q \<Rightarrow> dict_set d ex q) d xs)) \<and>
         fst ` set (foldl (\<lambda>d ex. case latest st ex smb of None \<Rightarrow> d | Some q \<Rightarrow> dict_set d ex q) d xs)
           = fst ` set d \<union> {ex \<in> set xs. latest st ex smb \<noteq> None} \<and>
         (\<forall>(e, q)\<in>set (foldl (\<lambda>d ex. case latest st ex smb of None \<Rightarrow> d | Some q \<Rightarrow> dict_set d ex q) d xs).
            latest st e smb = Some q)"
  using assms
proof (induction xs arbitrary: d)
  case Nil
  then show ?case by simp
next
  case (Cons x xs)
  show ?case
  proof (cases "latest st x smb")
    case None
    with Cons.IH [OF Cons.prems] show ?thesis by auto
  next
    case (Some q)
    have 1: "distinct (map fst (dict_set d x q))"
      using Cons.prems(1) by (rule distinct_keys_dict_set)
    have 2: "\<forall>(e, q')\<in>set (dict_set d x q). latest st e smb = Some q'"
      using Cons.prems(2) Some dict_set_subset [of d x q] by auto
    from Cons.IH [OF 1 2] Some show ?thesis by (auto simp: set_keys_dict_set)
  qed
qed

lemma exchange_prices_props:
  "distinct (map fst (exchange_prices st smb)) \<and>
   fst ` set (exchange_prices st smb) = {ex \<in> set (exchanges st). latest st ex smb \<noteq> None} \<and>
   (\<forall>(e, q)\<in>set (exchange_prices st smb). latest st e smb = Some q)"
  unfolding exchange_prices_def
  using exchange_prices_fold [of "[]" st smb "exchanges st"] by simp

lemma two_keys:
  assumes "distinct (map fst d)" and "fst ` set d = {a, b}" and "a \<noteq> b"
  shows "\<exists>va vb. d = [(a, va), (b, vb)] \<or> d = [(b, vb), (a, va)]"
proof -
  have "length (map fst d) = card (set (map fst d))"
    using assms(1) by (rule distinct_card [symmetric])
  also have "\<dots> = 2" using assms(2,3) by simp
  finally have "length d = 2" by simp
  then obtain p1 p2 where d: "d = [p1, p2]"
    by (cases d; cases "tl d") auto
  obtain k1 v1 k2 v2 where p: "p1 = (k1, v1)" "p2 = (k2, v2)" by (cases p1; cases p2) auto
  from assms(2) d p have "{k1, k2} = {a, b}" by simp
  then have "(k1 = a \<and> k2 = b) \<or> (k1 = b \<and> k2 = a)" by (auto simp: doubleton_eq_iff)
  with d p show ?thesis by auto
qed

lemma cross_pair_mem:
  assumes "op \<in> set (fst (cross_pair now st smb (be, bi) (se, si)))"
  shows "\<exists>thr. min_profit_threshold st ''cross_exchange'' = Some thr \<and> be \<noteq> se \<and>
           net_buy_price st be (ask_price bi) \<noteq> 0 \<and>
           net_sell_price st se (bid_price si) > net_buy_price st be (ask_price bi) \<and>
           thr * 100 \<le> (net_sell_price st se (bid_price si) - net_buy_price st be (ask_price bi))
                          / net_buy_price st be (ask_price bi) * 100 \<and>
           op = cross_opportunity now smb be bi se si
                  (net_sell_price st se (bid_price si) - net_buy_price st be (ask_price bi))
                  ((net_sell_price st se (bid_price si) - net_buy_price st be (ask_price bi))
                          / net_buy_price st be (ask_price bi) * 100)"
  using assms by (auto simp: cross_pair_def Let_def split: if_splits option.splits)

lemma find_cross_mem:
  assumes "op \<in> set (find_cross_exchange_arbitrage now st smb)"
  shows "\<exists>be bi se si thr.
           (be, bi) \<in> set (exchange_prices st smb) \<and> (se, si) \<in> set (exchange_prices st smb) \<and>
           min_profit_threshold st ''cross_exchange'' = Some thr \<and> be \<noteq> se \<and>
           net_buy_price st be (ask_price bi) \<noteq> 0 \<and>
           net_sell_price st se (bid_price si) > net_buy_price st be (ask_price bi) \<and>
           thr * 100 \<le> (net_sell_price st se (bid_price si) - net_buy_price st be (ask_price bi))
                          / net_buy_price st be (ask_price bi) * 100 \<and>
           op = cross_opportunity now smb be bi se si
                  (net_sell_price st se (bid_price si) - net_buy_price st be (ask_price bi))
                  ((net_sell_price st se (bid_price si) - net_buy_price st be (ask_price bi))
                          / net_buy_price st be (ask_price bi) * 100)"
proof -
  let ?eps = "exchange_prices st smb"
  from assms have "op \<in> set (fst (try_for (\<lambda>b. try_for (\<lambda>s. cross_pair now st smb b s) ?eps) ?eps))"
    by (auto simp: find_cross_exchange_arbitrage_def Let_def split: if_splits)
  then obtain b where b: "b \<in> set ?eps" and "op \<in> set (fst (try_for (\<lambda>s. cross_pair now st smb b s) ?eps))"
    by (blast dest: try_for_mem)
  then obtain s where s: "s \<in> set ?eps" and m: "op \<in> set (fst (cross_pair now st smb b s))"
    by (blast dest: try_for_mem)
  obtain be bi where [simp]: "b = (be, bi)" by (cases b)
  obtain se si where [simp]: "s = (se, si)" by (cases s)
  from m have "op \<in> set (fst (cross_pair now st smb (be, bi) (se, si)))" by simp
  from cross_pair_mem [OF this] b s show ?thesis unfolding \<open>b = (be, bi)\<close> \<open>s = (se, si)\<close> by blast
qed

lemma demo_cross_latest:
  "latest demo_cross ex smb =
     (if ex = ''Binance'' \<and> smb = ''BTC-USDT'' then Some (new_quote ''Binance'' ''BTC-USDT'' 110 111 3 2)
      else if ex = ''OKX'' \<and> smb = ''BTC-USDT'' then Some (new_quote ''OKX'' ''BTC-USDT'' 100 101 5 1)
      else None)"
  by (simp add: demo_cross_def latest_update latest_init)

lemma demo_cross_exchanges:
  "exchanges demo_cross = [''OKX'', ''Binance'', ''Bybit'', ''Upbit'', ''Bithumb'', ''Coinone'']"
  by (simp add: demo_cross_def init_analyzer_def)

lemma demo_cross_eps:
  "exchange_prices demo_cross ''BTC-USDT'' =
     [(''OKX'', new_quote ''OKX'' ''BTC-USDT'' 100 101 5 1),
      (''Binance'', new_quote ''Binance'' ''BTC-USDT'' 110 111 3 2)]"
  by (simp add: exchange_prices_def demo_cross_exchanges demo_cross_latest)

lemma demo_cross_cfg:
  "fee_rate demo_cross ''OKX'' = 1 / 1000"
  "fee_rate demo_cross ''Binance'' = 1 / 1000"
  "min_profit_threshold demo_cross ''cross_exchange'' = Some (5 / 1000)"
  by (simp_all add: fee_rate_def demo_cross_def init_analyzer_def)

lemma demo_cross_scan:
  "find_cross_exchange_arbitrage 9 demo_cross ''BTC-USDT'' =
     [cross_opportunity 9 ''BTC-USDT'' ''OKX'' (new_quote ''OKX'' ''BTC-USDT'' 100 101 5 1)
        ''Binance'' (new_quote ''Binance'' ''BTC-USDT'' 110 111 3 2) (8789 / 1000) (878900 / 101101)]"
  by (simp add: find_cross_exchange_arbitrage_def demo_cross_eps cross_pair_def Let_def
      net_buy_price_def net_sell_price_def demo_cross_cfg new_quote_def)

lemma demo_nofee_cfg:
  "exchanges demo_nofee = [''OKX'', ''Binance'', ''Bybit'', ''Upbit'', ''Bithumb'', ''Coinone'']"
  "trading_fees demo_nofee ex = None"
  "min_profit_threshold demo_nofee ''cross_exchange'' = Some (5 / 1000)"
  "latest demo_nofee = latest demo_cross"
  by (simp_all add: demo_nofee_def demo_cross_def init_analyzer_def)

lemma demo_nofee_scan:
  "find_cross_exchange_arbitrage 9 demo_nofee ''BTC-USDT'' =
     [cross_opportunity 9 ''BTC-USDT'' ''OKX'' (new_quote ''OKX'' ''BTC-USDT'' 100 101 5 1)
        ''Binance'' (new_quote ''Binance'' ''BTC-USDT'' 110 111 3 2) (8789 / 1000) (878900 / 101101)]"
proof -
  have "exchange_prices demo_nofee ''BTC-USDT'' =
     [(''OKX'', new_quote ''OKX'' ''BTC-USDT'' 100 101 5 1),
      (''Binance'', new_quote ''Binance'' ''BTC-USDT'' 110 111 3 2)]"
    by (simp add: exchange_prices_def demo_nofee_cfg demo_cross_latest)
  then show ?thesis
    by (simp add: find_cross_exchange_arbitrage_def cross_pair_def Let_def
      net_buy_price_def net_sell_price_def fee_rate_def demo_nofee_cfg new_quote_def)
qed

lemma demo_zero_fee_latest:
  "latest demo_zero_fee ex smb =
     (if ex = ''Binance'' \<and> smb = ''BTC-USDT''
      then Some (new_quote ''Binance'' ''BTC-USDT'' (1005 / 10) (1006 / 10) 3 2)
      else if ex = ''OKX'' \<and> smb = ''BTC-USDT''
      then Some (new_quote ''OKX'' ''BTC-USDT'' 100 (1001 / 10) 5 1)
      else None)"
  by (simp add: demo_zero_fee_def latest_update latest_init)

lemma demo_zero_fee_cfg:
  "exchanges demo_zero_fee = [''OKX'', ''Binance'', ''Bybit'', ''Upbit'', ''Bithumb'', ''Coinone'']"
  "trading_fees demo_zero_fee ex = Some 0"
  "min_profit_threshold demo_zero_fee ''cross_exchange'' = Some (5 / 1000)"
  by (simp_all add: demo_zero_fee_def init_analyzer_def)

lemma demo_zero_fee_low_latest:
  "latest demo_zero_fee_low ex smb =
     (if ex = ''Binance'' \<and> smb = ''BTC-USDT''
      then Some (new_quote ''Binance'' ''BTC-USDT'' (1005 / 10) (1006 / 10) 3 2)
      else if ex = ''OKX'' \<and> smb = ''BTC-USDT''
      then Some (new_quote ''OKX'' ''BTC-USDT'' 100 (1001 / 10) 5 1)
      else None)"
proof -
  have "latest demo_zero_fee_low ex smb = latest demo_zero_fee ex smb"
    by (simp add: latest_def demo_zero_fee_low_def)
  also have "\<dots> = (if ex = ''Binance'' \<and> smb = ''BTC-USDT''
      then Some (new_quote ''Binance'' ''BTC-USDT'' (1005 / 10) (1006 / 10) 3 2)
      else if ex = ''OKX'' \<and> smb = ''BTC-USDT''
      then Some (new_quote ''OKX'' ''BTC-USDT'' 100 (1001 / 10) 5 1)
      else None)"
    by (simp add: demo_zero_fee_def latest_update latest_init)
  finally show ?thesis .
qed

lemma demo_zero_fee_low_cfg:
  "exchanges demo_zero_fee_low = [''OKX'', ''Binance'', ''Bybit'', ''Upbit'', ''Bithumb'', ''Coinone'']"
  "trading_fees demo_zero_fee_low ex = Some 0"
  "min_profit_threshold demo_zero_fee_low ''cross_exchange'' = Some (1 / 1000)"
  by (simp_all add: demo_zero_fee_low_def demo_zero_fee_def init_analyzer_def)

text \<open>
  Claim C5, as the code has it. The fee rate of an exchange that is absent from
  \<^verbatim>\<open>trading_fees\<close> is the default of \<^verbatim>\<open>.get\<close>, 0.001: its net buy price is the ask
  times 1.001 and its net sell price is the bid times 0.999, and the spread of every
  opportunity of the cross-exchange scan that buys or sells on it is computed from these
  net prices.
\<close>

theorem cross_exchange_default_fee:
  assumes "trading_fees st ex = None"
  shows "fee_rate st ex = 1 / 1000 \<and>
         net_buy_price st ex a = a * (1001 / 1000) \<and>
         net_sell_price st ex b = b * (999 / 1000) \<and>
         (\<forall>op\<in>set (find_cross_exchange_arbitrage now st smb).
            buy_exchange op = ex \<longrightarrow>
            spread op = net_sell_price st (sell_exchange op) (sell_price op)
                          - buy_price op * (1001 / 1000)) \<and>
         (\<forall>op\<in>set (find_cross_exchange_arbitrage now st smb).
            sell_exchange op = ex \<longrightarrow>
            spread op = sell_price op * (999 / 1000)
                          - net_buy_price st (buy_exchange op) (buy_price op))"
proof -
  have f: "fee_rate st ex = 1 / 1000" using assms by (simp add: fee_rate_def)
  have s: "spread op = net_sell_price st (sell_exchange op) (sell_price op)
                          - net_buy_price st (buy_exchange op) (buy_price op)"
    if "op \<in> set (find_cross_exchange_arbitrage now st smb)" for op
  proof -
    from find_cross_mem [OF that] obtain be bi se si where
      "op = cross_opportunity now smb be bi se si
                  (net_sell_price st se (bid_price si) - net_buy_price st be (ask_price bi))
                  ((net_sell_price st se (bid_price si) - net_buy_price st be (ask_price bi))
                          / net_buy_price st be (ask_price bi) * 100)"
      by blast
    then show ?thesis by (simp add: cross_opportunity_def)
  qed
  have nb: "net_buy_price st ex x = x * (1001 / 1000)" for x
    by (simp add: net_buy_price_def f)
  have ns: "net_sell_price st ex x = x * (999 / 1000)" for x
    by (simp add: net_sell_price_def f)
  have b: "spread op = net_sell_price st (sell_exchange op) (sell_price op)
                          - buy_price op * (1001 / 1000)"
    if "op \<in> set (find_cross_exchange_arbitrage now st smb)" "buy_exchange op = ex" for op
    using s [OF that(1)] that(2) nb [of "buy_price op"] by (simp only:)
  have c: "spread op = sell_price op * (999 / 1000)
                          - net_buy_price st (buy_exchange op) (buy_price op)"
    if "op \<in> set (find_cross_exchange_arbitrage now st smb)" "sell_exchange op = ex" for op
    using s [OF that(1)] that(2) ns [of "sell_price op"] by (simp only:)
  from f nb ns b c show ?thesis by blast
qed

theorem cross_exchange_default_fee_witness:
  "trading_fees demo_nofee ''OKX'' = None \<and>
   fee_rate demo_nofee ''OKX'' = 1 / 1000 \<and>
   net_buy_price demo_nofee ''OKX'' 101 = 101101 / 1000 \<and>
   net_sell_price demo_nofee ''OKX'' 100 = 999 / 10 \<and>
   map spread (find_cross_exchange_arbitrage 9 demo_nofee ''BTC-USDT'') = [8789 / 1000]"
proof -
  have a: "trading_fees demo_nofee ''OKX'' = None" by (simp add: demo_nofee_cfg)
  from cross_exchange_default_fee [OF a, of 101 100 9 "''BTC-USDT''"]
  show ?thesis using a by (simp add: demo_nofee_scan cross_opportunity_def)
qed

text \<open>
  Claim C5 as stated fails: with an empty fee table the fee rate of OKX is not 0, its net
  buy price is not the raw ask, and the spread of the opportunity that buys on OKX at 101
  and sells on Binance at 110 is not \<open>110 - 101\<close>.
\<close>

theorem cross_exchange_zero_fee_counterexample:
  "trading_fees demo_nofee ''OKX'' = None \<and>
   trading_fees demo_nofee ''Binance'' = None \<and>
   fee_rate demo_nofee ''OKX'' \<noteq> 0 \<and>
   net_buy_price demo_nofee ''OKX'' 101 \<noteq> 101 \<and>
   net_sell_price demo_nofee ''Binance'' 110 \<noteq> 110 \<and>
   map buy_price (find_cross_exchange_arbitrage 9 demo_nofee ''BTC-USDT'') = [101] \<and>
   map sell_price (find_cross_exchange_arbitrage 9 demo_nofee ''BTC-USDT'') = [110] \<and>
   map spread (find_cross_exchange_arbitrage 9 demo_nofee ''BTC-USDT'') \<noteq> [110 - 101]"
  by (simp add: demo_nofee_scan cross_opportunity_def demo_nofee_cfg fee_rate_def
      net_buy_price_def net_sell_price_def new_quote_def)



text \<open>
  Claim C8, as the code has it. When exactly two exchanges \<open>A\<close> and \<open>B\<close> of
  \<^verbatim>\<open>self.exchanges\<close> quote the symbol, both quotes have \<open>0 < bid \<le> ask\<close>, the ask of
  \<open>A\<close> is strictly below the bid of \<open>B\<close>, both fees are zero, and the ratio
  \<open>(B.bid - A.ask) / A.ask\<close> is not below the configured cross-exchange threshold, then
  the scan yields exactly one opportunity: of type \<^verbatim>\<open>cross_exchange\<close>, buying on \<open>A\<close>
  and selling on \<open>B\<close>, with \<^verbatim>\<open>profit_percent\<close> 100 times that ratio.
\<close>

theorem cross_exchange_two_sources:
  assumes ab: "A \<noteq> B"
    and quoting: "{ex \<in> set (exchanges st). latest st ex smb \<noteq> None} = {A, B}"
    and qa: "latest st A smb = Some qa" and qb: "latest st B smb = Some qb"
    and fa: "trading_fees st A = Some 0" and fb: "trading_fees st B = Some 0"
    and valid: "0 < bid_price qa" "bid_price qa \<le> ask_price qa" "bid_price qb \<le> ask_price qb"
    and crossed: "ask_price qa < bid_price qb"
    and thr: "min_profit_threshold st ''cross_exchange'' = Some thr"
    and enough: "thr \<le> (bid_price qb - ask_price qa) / ask_price qa"
  shows "find_cross_exchange_arbitrage now st smb =
           [cross_opportunity now smb A qa B qb (bid_price qb - ask_price qa)
              ((bid_price qb - ask_price qa) / ask_price qa * 100)] \<and>
         map op_type (find_cross_exchange_arbitrage now st smb) = [''cross_exchange''] \<and>
         map profit_percent (find_cross_exchange_arbitrage now st smb)
           = [Fin ((bid_price qb - ask_price qa) / ask_price qa * 100)]"
proof -
  let ?eps = "exchange_prices st smb"
  let ?op = "cross_opportunity now smb A qa B qb (bid_price qb - ask_price qa)
              ((bid_price qb - ask_price qa) / ask_price qa * 100)"
  note P = exchange_prices_props [of st smb]
  from P quoting have keys: "fst ` set ?eps = {A, B}" by simp
  from P have dist: "distinct (map fst ?eps)" by simp
  from two_keys [OF dist keys ab] obtain va vb where
    shape: "?eps = [(A, va), (B, vb)] \<or> ?eps = [(B, vb), (A, va)]" by blast
  from shape have "(A, va) \<in> set ?eps" "(B, vb) \<in> set ?eps" by auto
  with P qa qb have v: "va = qa" "vb = qb" by auto
  have n: "net_buy_price st A x = x" "net_buy_price st B x = x"
          "net_sell_price st A x = x" "net_sell_price st B x = x" for x
    using fa fb by (simp_all add: net_buy_price_def net_sell_price_def fee_rate_def)
  have pos: "ask_price qa \<noteq> 0" using valid by simp
  have ge: "thr * 100 \<le> (bid_price qb - ask_price qa) / ask_price qa * 100"
    using enough by (rule mult_right_mono) simp
  have AB: "cross_pair now st smb (A, qa) (B, qb) = ([?op], None)"
    using ab crossed pos thr ge by (simp add: cross_pair_def Let_def n)
  have BA: "cross_pair now st smb (B, qb) (A, qa) = ([], None)"
    using ab valid crossed by (simp add: cross_pair_def Let_def n)
  have AA: "cross_pair now st smb (A, qa) (A, qa) = ([], None)"
           "cross_pair now st smb (B, qb) (B, qb) = ([], None)"
    by (simp_all add: cross_pair_def)
  have "find_cross_exchange_arbitrage now st smb = [?op]"
    using shape unfolding v
    by (auto simp: find_cross_exchange_arbitrage_def Let_def AB BA AA)
  then show ?thesis by (simp add: cross_opportunity_def)
qed

theorem cross_exchange_two_sources_witness:
  "find_cross_exchange_arbitrage 9 demo_zero_fee_low ''BTC-USDT'' =
     [cross_opportunity 9 ''BTC-USDT''
        ''OKX'' (new_quote ''OKX'' ''BTC-USDT'' 100 (1001 / 10) 5 1)
        ''Binance'' (new_quote ''Binance'' ''BTC-USDT'' (1005 / 10) (1006 / 10) 3 2)
        (4 / 10) (400 / 1001)] \<and>
   map profit_percent (find_cross_exchange_arbitrage 9 demo_zero_fee_low ''BTC-USDT'')
     = [Fin (400 / 1001)]"
proof -
  let ?qa = "new_quote ''OKX'' ''BTC-USDT'' 100 (1001 / 10) 5 1"
  let ?qb = "new_quote ''Binance'' ''BTC-USDT'' (1005 / 10) (1006 / 10) 3 2"
  have 1: "''OKX'' \<noteq> ''Binance''" by simp
  have 2: "{ex \<in> set (exchanges demo_zero_fee_low). latest demo_zero_fee_low ex ''BTC-USDT'' \<noteq> None}
             = {''OKX'', ''Binance''}"
    by (auto simp: demo_zero_fee_low_cfg demo_zero_fee_low_latest)
  have 3: "latest demo_zero_fee_low ''OKX'' ''BTC-USDT'' = Some ?qa"
          "latest demo_zero_fee_low ''Binance'' ''BTC-USDT'' = Some ?qb"
    by (simp_all add: demo_zero_fee_low_latest)
  have 4: "0 < bid_price ?qa" "bid_price ?qa \<le> ask_price ?qa" "bid_price ?qb \<le> ask_price ?qb"
          "ask_price ?qa < bid_price ?qb"
    by (simp_all add: new_quote_def)
  have 5: "(1 / 1000 :: real) \<le> (bid_price ?qb - ask_price ?qa) / ask_price ?qa"
    by (simp add: new_quote_def)
  have 6: "bid_price ?qb - ask_price ?qa = 4 / 10"
          "(bid_price ?qb - ask_price ?qa) / ask_price ?qa * 100 = 400 / 1001"
    by (simp_all add: new_quote_def)
  show ?thesis
    using cross_exchange_two_sources [OF 1 2 3 demo_zero_fee_low_cfg(2) demo_zero_fee_low_cfg(2)
        4(1,2,3,4) demo_zero_fee_low_cfg(3) 5, of 9]
    by (simp add: new_quote_def cross_opportunity_def)
qed

text \<open>
  Claim C8 as stated fails: with zero fees, OKX asking 100.1 and Binance bidding 100.5, the
  ratio is about 0.4 percent, below the threshold of 0.5 percent, and the scan yields
  nothing.
\<close>

theorem cross_exchange_two_sources_counterexample:
  "latest demo_zero_fee ''OKX'' ''BTC-USDT'' = Some (new_quote ''OKX'' ''BTC-USDT'' 100 (1001 / 10) 5 1) \<and>
   latest demo_zero_fee ''Binance'' ''BTC-USDT''
     = Some (new_quote ''Binance'' ''BTC-USDT'' (1005 / 10) (1006 / 10) 3 2) \<and>
   (1001 / 10 :: real) < 1005 / 10 \<and>
   trading_fees demo_zero_fee ''OKX'' = Some 0 \<and>
   trading_fees demo_zero_fee ''Binance'' = Some 0 \<and>
   find_cross_exchange_arbitrage 9 demo_zero_fee ''BTC-USDT'' = []"
proof -
  have "exchange_prices demo_zero_fee ''BTC-USDT'' =
     [(''OKX'', new_quote ''OKX'' ''BTC-USDT'' 100 (1001 / 10) 5 1),
      (''Binance'', new_quote ''Binance'' ''BTC-USDT'' (1005 / 10) (1006 / 10) 3 2)]"
    by (simp add: exchange_prices_def demo_zero_fee_cfg demo_zero_fee_latest)
  then have "find_cross_exchange_arbitrage 9 demo_zero_fee ''BTC-USDT'' = []"
    by (simp add: find_cross_exchange_arbitrage_def cross_pair_def Let_def
      net_buy_price_def net_sell_price_def fee_rate_def demo_zero_fee_cfg new_quote_def)
  then show ?thesis by (simp add: demo_zero_fee_latest demo_zero_fee_cfg)
qed

subsection \<open>The scans on a state without quotes\<close>

lemma try_for_nothing:
  "\<forall>x\<in>set xs. body x = ([], None) \<Longrightarrow> try_for body xs = ([], None)"
  by (induction xs) auto

lemma exchange_prices_unquoted:
  "\<forall>ex\<in>set (exchanges st). latest st ex smb = None \<Longrightarrow> exchange_prices st smb = []"
proof -
  have "\<forall>ex\<in>set xs. latest st ex smb = None \<Longrightarrow>
        foldl (\<lambda>d ex. case latest st ex smb of None \<Rightarrow> d | Some q \<Rightarrow> dict_set d ex q) d xs = d" for xs d
    by (induction xs arbitrary: d) auto
  then show "\<forall>ex\<in>set (exchanges st). latest st ex smb = None \<Longrightarrow> exchange_prices st smb = []"
    by (simp add: exchange_prices_def)
qed

lemma cross_unquoted:
  "\<forall>ex\<in>set (exchanges st). latest st ex smb = None \<Longrightarrow> find_cross_exchange_arbitrage now st smb = []"
  by (simp add: find_cross_exchange_arbitrage_def exchange_prices_unquoted)

lemma future_spot_unquoted:
  "latest st ''OKX'' smb = None \<Longrightarrow> find_future_spot_arbitrage now st smb = []"
  by (simp add: find_future_spot_arbitrage_def future_spot_body_def)

lemma future_spot_no_swap:
  "latest st ''OKX'' (replace smb ''-USDT'' ''-USDT-SWAP'') = None \<Longrightarrow> find_future_spot_arbitrage now st smb = []"
  by (simp add: find_future_spot_arbitrage_def future_spot_body_def Let_def split: option.splits)

lemma try_for_single: "try_for body [x] = body x"
  by (cases "body x") (auto split: option.splits)

lemma find_statistical_eq:
  "find_statistical_arbitrage now st =
     fst (try_for (statistical_exchange now st ''BTC-USDT'' ''ETH-USDT'') (exchanges st))"
proof -
  obtain ys r where t: "try_for (statistical_exchange now st ''BTC-USDT'' ''ETH-USDT'') (exchanges st) = (ys, r)"
    by (cases "try_for (statistical_exchange now st ''BTC-USDT'' ''ETH-USDT'') (exchanges st)")
  show ?thesis
    by (cases r) (simp_all add: find_statistical_arbitrage_def statistical_symbols_def try_for_single t)
qed

lemma statistical_unquoted:
  "\<forall>ex\<in>set (exchanges st). latest st ex ''BTC-USDT'' = None \<or> latest st ex ''ETH-USDT'' = None
     \<Longrightarrow> find_statistical_arbitrage now st = []"
proof -
  assume a: "\<forall>ex\<in>set (exchanges st). latest st ex ''BTC-USDT'' = None \<or> latest st ex ''ETH-USDT'' = None"
  have "\<forall>ex\<in>set (exchanges st). statistical_exchange now st ''BTC-USDT'' ''ETH-USDT'' ex = ([], None)"
    using a by (auto simp: statistical_exchange_def split: option.splits)
  then have "try_for (statistical_exchange now st ''BTC-USDT'' ''ETH-USDT'') (exchanges st) = ([], None)"
    by (rule try_for_nothing)
  then show ?thesis
    by (simp add: find_statistical_arbitrage_def statistical_symbols_def)
qed

lemma latest_empty: "price_data st = Map.empty \<Longrightarrow> latest st ex smb = None"
  by (simp add: latest_def)

lemma all_opportunities_empty:
  assumes "price_data st = Map.empty"
  shows "all_opportunities now st = []"
proof -
  have l: "latest st ex smb = None" for ex smb using assms by (rule latest_empty)
  have "find_triangular_arbitrage now st ''USDT'' = []"
    using assms by (simp add: find_triangular_arbitrage_def)
  then show ?thesis
    by (simp add: all_opportunities_def cross_unquoted future_spot_unquoted statistical_unquoted l)
qed

text \<open>
  Claim C2, as the code has it. On an analyzer without any quote,
  \<^verbatim>\<open>generate_arbitrage_signal\<close> does not fail and returns \<^verbatim>\<open>None\<close> alone: no opportunity
  and no counts (the counts by type are part of a result that is not \<^verbatim>\<open>None\<close> only). The
  scans find nothing, so there are zero opportunities of every type, and the analyzer is
  unchanged.
\<close>

theorem scan_empty_returns_none:
  assumes "price_data st = Map.empty"
  shows "generate_arbitrage_signal now st = (None, st) \<and>
         all_opportunities now st = [] \<and>
         (\<forall>k. count_type (all_opportunities now st) k = 0)"
  using all_opportunities_empty [OF assms, of now]
  by (simp add: generate_arbitrage_signal_def count_type_def)

theorem scan_empty_returns_none_witness:
  "price_data init_analyzer = Map.empty \<and>
   generate_arbitrage_signal 0 init_analyzer = (None, init_analyzer) \<and>
   all_opportunities 0 init_analyzer = [] \<and>
   count_type (all_opportunities 0 init_analyzer) ''cross_exchange'' = 0"
proof -
  have e: "price_data init_analyzer = Map.empty" by (simp add: init_analyzer_def)
  from scan_empty_returns_none [OF e, of 0] e show ?thesis by (simp add: count_type_def)
qed

text \<open>
  Claim C2 as stated fails: on the fresh analyzer the result is \<^verbatim>\<open>None\<close>, and it carries
  no count of zero for every type.
\<close>

theorem scan_empty_counts_counterexample:
  "price_data init_analyzer = Map.empty \<and>
   fst (generate_arbitrage_signal 0 init_analyzer) = None \<and>
   map_option opportunities_by_type (fst (generate_arbitrage_signal 0 init_analyzer))
     \<noteq> Some [(''cross_exchange'', 0), (''triangular'', 0), (''statistical'', 0), (''future_spot'', 0)]"
proof -
  have e: "price_data init_analyzer = Map.empty" by (simp add: init_analyzer_def)
  have "all_opportunities 0 init_analyzer = []" using e by (rule all_opportunities_empty)
  then have "generate_arbitrage_signal 0 init_analyzer = (None, init_analyzer)"
    by (simp add: generate_arbitrage_signal_def)
  with e show ?thesis by simp
qed

subsection \<open>The example states under the scans\<close>

lemma demo_cross_okx:
  "price_data demo_cross ''OKX'' = Some [(''BTC-USDT'', new_quote ''OKX'' ''BTC-USDT'' 100 101 5 1)]"
  by (simp add: demo_cross_def update_price_data_def Let_def init_analyzer_def)

lemma demo_cross_triangular: "find_triangular_arbitrage 9 demo_cross ''USDT'' = []"
  by (simp add: find_triangular_arbitrage_def demo_cross_okx triangular_pair_def endswith_def
      replace_def startswith_def Let_def)

lemma demo_cross_all:
  "all_opportunities 9 demo_cross =
     [cross_opportunity 9 ''BTC-USDT'' ''OKX'' (new_quote ''OKX'' ''BTC-USDT'' 100 101 5 1)
        ''Binance'' (new_quote ''Binance'' ''BTC-USDT'' 110 111 3 2) (8789 / 1000) (878900 / 101101)]"
  by (simp add: all_opportunities_def scan_symbols_def demo_cross_scan demo_cross_triangular
      cross_unquoted future_spot_unquoted future_spot_no_swap statistical_unquoted
      demo_cross_latest demo_cross_exchanges replace_def startswith_def)

lemma demo_tie_latest:
  "latest demo_tie ex smb =
     (if ex = ''Bybit'' \<and> smb = ''BTC-USDT'' then Some (new_quote ''Bybit'' ''BTC-USDT'' 110 111 4 3)
      else if ex = ''Binance'' \<and> smb = ''BTC-USDT'' then Some (new_quote ''Binance'' ''BTC-USDT'' 110 111 3 2)
      else if ex = ''OKX'' \<and> smb = ''BTC-USDT'' then Some (new_quote ''OKX'' ''BTC-USDT'' 100 101 5 1)
      else None)"
  by (simp add: demo_tie_def latest_update demo_cross_latest)

lemma demo_tie_cfg:
  "exchanges demo_tie = [''OKX'', ''Binance'', ''Bybit'', ''Upbit'', ''Bithumb'', ''Coinone'']"
  "fee_rate demo_tie ''OKX'' = 1 / 1000"
  "fee_rate demo_tie ''Binance'' = 1 / 1000"
  "fee_rate demo_tie ''Bybit'' = 1 / 1000"
  "min_profit_threshold demo_tie ''cross_exchange'' = Some (5 / 1000)"
  by (simp_all add: demo_tie_def fee_rate_def demo_cross_exchanges)
     (simp_all add: demo_cross_def init_analyzer_def)

lemma demo_tie_okx:
  "price_data demo_tie ''OKX'' = Some [(''BTC-USDT'', new_quote ''OKX'' ''BTC-USDT'' 100 101 5 1)]"
  by (simp add: demo_tie_def update_price_data_def Let_def demo_cross_okx)

lemma demo_tie_scan:
  "find_cross_exchange_arbitrage 9 demo_tie ''BTC-USDT'' = [demo_op_binance, demo_op_bybit]"
proof -
  have "exchange_prices demo_tie ''BTC-USDT'' =
     [(''OKX'', new_quote ''OKX'' ''BTC-USDT'' 100 101 5 1),
      (''Binance'', new_quote ''Binance'' ''BTC-USDT'' 110 111 3 2),
      (''Bybit'', new_quote ''Bybit'' ''BTC-USDT'' 110 111 4 3)]"
    by (simp add: exchange_prices_def demo_tie_cfg demo_tie_latest)
  then show ?thesis
    by (simp add: find_cross_exchange_arbitrage_def cross_pair_def Let_def demo_op_binance_def demo_op_bybit_def
      net_buy_price_def net_sell_price_def demo_tie_cfg new_quote_def)
qed

lemma demo_tie_all: "all_opportunities 9 demo_tie = [demo_op_binance, demo_op_bybit]"
proof -
  have "find_triangular_arbitrage 9 demo_tie ''USDT'' = []"
    by (simp add: find_triangular_arbitrage_def demo_tie_okx triangular_pair_def endswith_def
      replace_def startswith_def Let_def)
  then show ?thesis
    by (simp add: all_opportunities_def scan_symbols_def demo_tie_scan
      cross_unquoted future_spot_unquoted future_spot_no_swap statistical_unquoted
      demo_tie_latest demo_tie_cfg replace_def startswith_def)
qed

subsection \<open>The best opportunity\<close>

lemma np_ge_refl: "a \<noteq> NaN \<Longrightarrow> np_ge a a"
  by (simp add: np_ge_def)

lemma np_gt_imp_ge: "np_gt a b \<Longrightarrow> np_ge a b"
  by (simp add: np_ge_def)

lemma np_not_gt: "a \<noteq> NaN \<Longrightarrow> b \<noteq> NaN \<Longrightarrow> \<not> np_gt a b \<Longrightarrow> np_ge b a"
  by (cases a; cases b) (auto simp: np_ge_def)

lemma np_gt_ge_trans: "np_gt a b \<Longrightarrow> np_ge b c \<Longrightarrow> np_gt a c"
  by (cases a; cases b; cases c) (auto simp: np_ge_def)

lemma np_ge_trans: "np_ge a b \<Longrightarrow> np_ge b c \<Longrightarrow> np_ge a c"
  by (cases a; cases b; cases c) (auto simp: np_ge_def)

lemma np_ge_not_nan: "np_ge a b \<Longrightarrow> a \<noteq> NaN \<and> b \<noteq> NaN"
  by (cases a; cases b) (auto simp: np_ge_def)

lemma first_max_snoc:
  assumes fm: "first_max key pre b" and nn: "key x \<noteq> NaN"
  shows "first_max key (pre @ [x]) (if np_gt (key x) (key b) then x else b)"
proof -
  from fm obtain i where i: "i < length pre" "b = pre ! i"
    and ge: "\<forall>j<length pre. np_ge (key b) (key (pre ! j))"
    and gt: "\<forall>j<i. np_gt (key b) (key (pre ! j))"
    unfolding first_max_def by blast
  have bn: "key b \<noteq> NaN" using ge i np_ge_not_nan by blast
  show ?thesis
  proof (cases "np_gt (key x) (key b)")
    case True
    have "\<forall>j<length pre. np_gt (key x) (key (pre ! j))"
      using True ge np_gt_ge_trans by blast
    then have a: "\<forall>j<length (pre @ [x]). j \<noteq> length pre \<longrightarrow> np_gt (key x) (key ((pre @ [x]) ! j))"
      by (auto simp: nth_append)
    have "\<forall>j<length (pre @ [x]). np_ge (key x) (key ((pre @ [x]) ! j))"
    proof (intro allI impI)
      fix j assume "j < length (pre @ [x])"
      then show "np_ge (key x) (key ((pre @ [x]) ! j))"
        using a nn by (cases "j = length pre") (auto simp: np_ge_refl np_gt_imp_ge)
    qed
    moreover have "\<forall>j<length pre. np_gt (key x) (key ((pre @ [x]) ! j))"
      using a by auto
    ultimately show ?thesis
      using True unfolding first_max_def
      by (intro exI [of _ "length pre"]) auto
  next
    case False
    then have xb: "np_ge (key b) (key x)" using nn bn by (simp add: np_not_gt)
    have "\<forall>j<length (pre @ [x]). np_ge (key b) (key ((pre @ [x]) ! j))"
    proof (intro allI impI)
      fix j assume "j < length (pre @ [x])"
      then show "np_ge (key b) (key ((pre @ [x]) ! j))"
        using ge xb by (cases "j = length pre") (auto simp: nth_append)
    qed
    moreover have "\<forall>j<i. np_gt (key b) (key ((pre @ [x]) ! j))"
      using gt i by (auto simp: nth_append)
    moreover have "b = (pre @ [x]) ! i" using i by (simp add: nth_append)
    ultimately show ?thesis
      using False i unfolding first_max_def
      by (intro exI [of _ i]) auto
  qed
qed

lemma py_max_from_first_max:
  "first_max key pre b \<Longrightarrow> \<forall>x\<in>set xs. key x \<noteq> NaN \<Longrightarrow>
   first_max key (pre @ xs) (py_max_from key b xs)"
proof (induction xs arbitrary: pre b)
  case Nil
  then show ?case by simp
next
  case (Cons x xs)
  from Cons.prems have "first_max key (pre @ [x]) (if np_gt (key x) (key b) then x else b)"
    by (intro first_max_snoc) auto
  from Cons.IH [OF this] Cons.prems(2) show ?case by simp
qed

lemma py_max_first_max:
  assumes "\<forall>y\<in>set (x # xs). key y \<noteq> NaN"
  shows "first_max key (x # xs) (py_max_from key x xs)"
proof -
  have "first_max key [x] x" using assms by (simp add: first_max_def np_ge_refl)
  from py_max_from_first_max [OF this, of xs] assms show ?thesis by simp
qed

lemma cross_profit_type:
  assumes "op \<in> set (find_cross_exchange_arbitrage now st smb)"
  shows "profit_percent op \<noteq> NaN \<and> op_type op = ''cross_exchange''"
proof -
  from find_cross_mem [OF assms] obtain be bi se si s p where
    "op = cross_opportunity now smb be bi se si s p" by blast
  then show ?thesis by (simp add: cross_opportunity_def)
qed

lemma future_spot_profit_type:
  assumes "op \<in> set (find_future_spot_arbitrage now st smb)"
  shows "profit_percent op \<noteq> NaN \<and> op_type op = ''future_spot''"
  using assms
  by (auto simp: find_future_spot_arbitrage_def future_spot_body_def Let_def
      future_spot_opportunity_def split: option.splits if_splits)

lemma triangular_pair_profit_type:
  assumes "op \<in> set (fst (triangular_pair now st base prices symbol1 symbol2))"
  shows "profit_percent op \<noteq> NaN \<and> op_type op = ''triangular''"
  using assms
  by (auto simp: triangular_pair_def Let_def triangular_opportunity_def
      split: option.splits if_splits)

lemma triangular_profit_type:
  assumes "op \<in> set (find_triangular_arbitrage now st base)"
  shows "profit_percent op \<noteq> NaN \<and> op_type op = ''triangular''"
proof -
  from assms obtain prices where p: "price_data st ''OKX'' = Some prices"
    by (cases "price_data st ''OKX''") (auto simp: find_triangular_arbitrage_def)
  let ?inner = "\<lambda>symbol1. if \<not> endswith symbol1 (''-'' @ base) then ([], None)
                      else try_for (\<lambda>symbol2. triangular_pair now st base prices symbol1 symbol2)
                             (map fst prices)"
  from assms p have "op \<in> set (fst (try_for ?inner (map fst prices)))"
    by (simp add: find_triangular_arbitrage_def Let_def)
  then obtain s1 where "op \<in> set (fst (?inner s1))" by (blast dest: try_for_mem)
  then have "op \<in> set (fst (try_for (\<lambda>symbol2. triangular_pair now st base prices s1 symbol2)
                             (map fst prices)))"
    by (auto split: if_splits)
  then obtain s2 where "op \<in> set (fst (triangular_pair now st base prices s1 s2))"
    by (blast dest: try_for_mem)
  then show ?thesis by (rule triangular_pair_profit_type)
qed

lemma statistical_signal_profit_type:
  assumes "op \<in> set (fst (statistical_signal now st ex symbol1 symbol2 price1 price2 ratio))"
  shows "profit_percent op \<noteq> NaN \<and> op_type op = ''statistical'' \<and> buy_exchange op = ex"
  using assms
  by (auto simp: statistical_signal_def Let_def statistical_opportunity_def
      split: option.splits if_splits dest: np_ge_not_nan)

lemma statistical_exchange_profit_type:
  assumes "op \<in> set (fst (statistical_exchange now st symbol1 symbol2 ex))"
  shows "profit_percent op \<noteq> NaN \<and> op_type op = ''statistical'' \<and> buy_exchange op = ex"
  using assms
  by (auto simp: statistical_exchange_def split: option.splits if_splits
      dest: statistical_signal_profit_type)

lemma statistical_mem:
  assumes "op \<in> set (find_statistical_arbitrage now st)"
  shows "\<exists>ex\<in>set (exchanges st).
           op \<in> set (fst (statistical_exchange now st ''BTC-USDT'' ''ETH-USDT'' ex))"
proof -
  from assms have "op \<in> set (fst (try_for (statistical_exchange now st ''BTC-USDT'' ''ETH-USDT'')
                                     (exchanges st)))"
    by (simp add: find_statistical_eq)
  then show ?thesis by (rule try_for_mem)
qed

lemma statistical_profit_type:
  assumes "op \<in> set (find_statistical_arbitrage now st)"
  shows "profit_percent op \<noteq> NaN \<and> op_type op = ''statistical''"
  using statistical_mem [OF assms] statistical_exchange_profit_type by blast

lemma all_opportunities_not_nan:
  assumes "op \<in> set (all_opportunities now st)"
  shows "profit_percent op \<noteq> NaN"
  using assms cross_profit_type future_spot_profit_type triangular_profit_type
    statistical_profit_type
  unfolding all_opportunities_def by fastforce



text \<open>
  Claim C4, as the code has it. \<^verbatim>\<open>generate_arbitrage_signal\<close> leaves the quotes, the
  histories, the exchanges, the fee tables and the thresholds unchanged. When it finds no
  opportunity the analyzer is unchanged; when it finds one, the only change is that the
  opportunity that the call returns, the first one of maximal profit in the list of all
  opportunities, is appended to \<^verbatim>\<open>self.arbitrage_opportunities\<close>.
\<close>

theorem scan_appends_best_only:
  "price_data (snd (generate_arbitrage_signal now st)) = price_data st \<and>
   price_history (snd (generate_arbitrage_signal now st)) = price_history st \<and>
   exchanges (snd (generate_arbitrage_signal now st)) = exchanges st \<and>
   trading_fees (snd (generate_arbitrage_signal now st)) = trading_fees st \<and>
   withdrawal_fees (snd (generate_arbitrage_signal now st)) = withdrawal_fees st \<and>
   min_profit_threshold (snd (generate_arbitrage_signal now st)) = min_profit_threshold st \<and>
   (all_opportunities now st = [] \<longrightarrow>
      fst (generate_arbitrage_signal now st) = None \<and>
      snd (generate_arbitrage_signal now st) = st) \<and>
   (all_opportunities now st \<noteq> [] \<longrightarrow>
      (\<exists>best i.
         i < length (all_opportunities now st) \<and> best = all_opportunities now st ! i \<and>
         (\<forall>j<length (all_opportunities now st).
            np_ge (profit_percent best) (profit_percent (all_opportunities now st ! j))) \<and>
         (\<forall>j<i. np_gt (profit_percent best) (profit_percent (all_opportunities now st ! j))) \<and>
         fst (generate_arbitrage_signal now st)
           = Some (make_signal best (all_opportunities now st)) \<and>
         snd (generate_arbitrage_signal now st)
           = st\<lparr>arbitrage_opportunities := arbitrage_opportunities st @ [best]\<rparr>))"
proof (cases "all_opportunities now st")
  case Nil
  then show ?thesis by (simp add: generate_arbitrage_signal_def)
next
  case (Cons x xs)
  let ?best = "py_max_from profit_percent x xs"
  have "\<forall>y\<in>set (x # xs). profit_percent y \<noteq> NaN"
    using all_opportunities_not_nan [of _ now st] Cons by simp
  then have "first_max profit_percent (x # xs) ?best" by (rule py_max_first_max)
  then obtain i where i: "i < length (x # xs)" "?best = (x # xs) ! i"
    "\<forall>j<length (x # xs). np_ge (profit_percent ?best) (profit_percent ((x # xs) ! j))"
    "\<forall>j<i. np_gt (profit_percent ?best) (profit_percent ((x # xs) ! j))"
    unfolding first_max_def by blast
  have r: "generate_arbitrage_signal now st =
      (Some (make_signal ?best (x # xs)),
       st\<lparr>arbitrage_opportunities := arbitrage_opportunities st @ [?best]\<rparr>)"
    by (simp add: generate_arbitrage_signal_def Cons Let_def)
  have frame: "price_data (snd (generate_arbitrage_signal now st)) = price_data st"
    "price_history (snd (generate_arbitrage_signal now st)) = price_history st"
    "exchanges (snd (generate_arbitrage_signal now st)) = exchanges st"
    "trading_fees (snd (generate_arbitrage_signal now st)) = trading_fees st"
    "withdrawal_fees (snd (generate_arbitrage_signal now st)) = withdrawal_fees st"
    "min_profit_threshold (snd (generate_arbitrage_signal now st)) = min_profit_threshold st"
    by (simp_all add: r)
  have "\<exists>best i.
         i < length (x # xs) \<and> best = (x # xs) ! i \<and>
         (\<forall>j<length (x # xs). np_ge (profit_percent best) (profit_percent ((x # xs) ! j))) \<and>
         (\<forall>j<i. np_gt (profit_percent best) (profit_percent ((x # xs) ! j))) \<and>
         fst (generate_arbitrage_signal now st) = Some (make_signal best (x # xs)) \<and>
         snd (generate_arbitrage_signal now st)
           = st\<lparr>arbitrage_opportunities := arbitrage_opportunities st @ [best]\<rparr>"
    using i r by (intro exI [of _ ?best] exI [of _ i]) simp
  with frame show ?thesis unfolding Cons by simp
qed

theorem scan_appends_best_only_witness:
  "all_opportunities 0 init_analyzer = [] \<and>
   generate_arbitrage_signal 0 init_analyzer = (None, init_analyzer) \<and>
   all_opportunities 9 demo_tie = [demo_op_binance, demo_op_bybit] \<and>
   profit_percent demo_op_binance = profit_percent demo_op_bybit \<and>
   generate_arbitrage_signal 9 demo_tie =
     (Some (make_signal demo_op_binance [demo_op_binance, demo_op_bybit]),
      demo_tie\<lparr>arbitrage_opportunities := arbitrage_opportunities demo_tie @ [demo_op_binance]\<rparr>) \<and>
   price_data (snd (generate_arbitrage_signal 9 demo_tie)) = price_data demo_tie \<and>
   price_history (snd (generate_arbitrage_signal 9 demo_tie)) = price_history demo_tie"
proof -
  have e: "all_opportunities 0 init_analyzer = []"
    by (rule all_opportunities_empty) (simp add: init_analyzer_def)
  from scan_appends_best_only [of 0 init_analyzer] e
  have 1: "generate_arbitrage_signal 0 init_analyzer = (None, init_analyzer)"
    by (simp add: prod_eq_iff)
  have ne: "all_opportunities 9 demo_tie \<noteq> []" by (simp add: demo_tie_all)
  have eq: "profit_percent demo_op_binance = profit_percent demo_op_bybit"
    by (simp add: demo_op_binance_def demo_op_bybit_def cross_opportunity_def)
  from scan_appends_best_only [of 9 demo_tie] ne obtain best i where
    i: "i < length (all_opportunities 9 demo_tie)" "best = all_opportunities 9 demo_tie ! i"
    and first: "\<forall>j<i. np_gt (profit_percent best) (profit_percent (all_opportunities 9 demo_tie ! j))"
    and r: "fst (generate_arbitrage_signal 9 demo_tie)
              = Some (make_signal best (all_opportunities 9 demo_tie))"
           "snd (generate_arbitrage_signal 9 demo_tie)
              = demo_tie\<lparr>arbitrage_opportunities := arbitrage_opportunities demo_tie @ [best]\<rparr>"
    by blast
  have "i = 0"
  proof (rule ccontr)
    assume "i \<noteq> 0"
    with i have i1: "i = 1" by (simp add: demo_tie_all)
    with first have "np_gt (profit_percent best) (profit_percent (all_opportunities 9 demo_tie ! 0))"
      by simp
    with i i1 show False
      by (simp add: demo_tie_all demo_op_binance_def demo_op_bybit_def cross_opportunity_def)
  qed
  with i have b: "best = demo_op_binance" by (simp add: demo_tie_all)
  from r have 2: "generate_arbitrage_signal 9 demo_tie =
     (Some (make_signal demo_op_binance [demo_op_binance, demo_op_bybit]),
      demo_tie\<lparr>arbitrage_opportunities := arbitrage_opportunities demo_tie @ [demo_op_binance]\<rparr>)"
    unfolding b demo_tie_all by (simp add: prod_eq_iff)
  from scan_appends_best_only [of 9 demo_tie]
  have 3: "price_data (snd (generate_arbitrage_signal 9 demo_tie)) = price_data demo_tie"
    "price_history (snd (generate_arbitrage_signal 9 demo_tie)) = price_history demo_tie"
    by blast+
  from e 1 eq 2 3 show ?thesis by (simp add: demo_tie_all)
qed

text \<open>
  Claim C4 as stated fails: a scan that finds an opportunity keeps it in
  \<^verbatim>\<open>self.arbitrage_opportunities\<close>, so the analyzer afterwards differs from the one
  before.
\<close>

theorem scan_read_only_counterexample:
  "arbitrage_opportunities demo_cross = [] \<and>
   arbitrage_opportunities (snd (generate_arbitrage_signal 9 demo_cross)) = [demo_op_binance] \<and>
   snd (generate_arbitrage_signal 9 demo_cross) \<noteq> demo_cross"
proof -
  have a: "arbitrage_opportunities demo_cross = []"
    by (simp add: demo_cross_def init_analyzer_def)
  have b: "arbitrage_opportunities (snd (generate_arbitrage_signal 9 demo_cross)) = [demo_op_binance]"
    by (simp add: generate_arbitrage_signal_def demo_cross_all a demo_op_binance_def Let_def)
  from a b have "snd (generate_arbitrage_signal 9 demo_cross) \<noteq> demo_cross" by auto
  with a b show ?thesis by blast
qed

subsection \<open>The triangular scan\<close>













subsection \<open>The statistical scan\<close>




lemma np_sum_replicate_aux:
  "foldl np_add (Fin a) (replicate n (Fin c)) = Fin (a + real n * c)"
  by (induction n arbitrary: a) (simp_all add: algebra_simps)

lemma np_mean_replicate: "0 < n \<Longrightarrow> np_mean (replicate n (Fin c)) = Fin c"
  by (simp add: np_mean_def np_sum_def np_sum_replicate_aux)


text \<open>The scan does emit on a series that is not constant: 25 ratios of 1 and 25 of 3
  have mean 2 and standard deviation 1; a current ratio of 5 has the z-score 3 and a profit
  of 60 percent.\<close>

lemma statistical_signal_example:
  "min_profit_threshold st ''statistical'' = Some (3 / 1000) \<Longrightarrow>
   map profit_percent
     (fst (statistical_signal now st ex ''BTC-USDT'' ''ETH-USDT''
        (new_quote ex ''BTC-USDT'' 5 6 1 0) (new_quote ex ''ETH-USDT'' (1 / 2) 1 1 0)
        (replicate 25 (Fin 1) @ replicate 25 (Fin 3)))) = [Fin 60]"
proof -
  let ?r = "replicate 25 (Fin 1) @ replicate 25 (Fin 3)"
  have m: "np_mean ?r = Fin 2"
    by (simp add: np_mean_def np_sum_def np_sum_replicate_aux)
  have "map (\<lambda>x. let d = np_abs (np_sub x (Fin 2)) in np_mul d d) ?r = replicate 50 (Fin 1)"
    by (simp add: np_sub_def Let_def replicate_add [symmetric])
  then have s: "np_std ?r = Fin 1"
    by (simp add: np_std_def m np_mean_replicate del: map_append)
  assume "min_profit_threshold st ''statistical'' = Some (3 / 1000)"
  then show ?thesis
    by (simp add: statistical_signal_def m s Let_def new_quote_def np_sub_def np_ge_def
        statistical_opportunity_def)
qed





end
